theory Spec2Isabelle
  imports Complex_Main "HOL-Library.Word"
begin

section \<open>Geometry values\<close>

text \<open>
  \<^verbatim>\<open>Magnum::Vector3\<close>, \<^verbatim>\<open>Magnum::Matrix3x3\<close> and \<^verbatim>\<open>Magnum::Matrix4\<close> hold 32-bit floats,
  the matrices column by column. Components are taken as real numbers here: of the geometry
  only the algebra and the comparisons the code performs are part of this development, not
  its rounding. The collision margin of a shape is kept as a real number in the same way.
\<close>

datatype Vector3 = Vector3 (vx: real) (vy: real) (vz: real)

datatype Vector4 = Vector4 (wx: real) (wy: real) (wz: real) (ww: real)

datatype Matrix3x3 = Matrix3x3 Vector3 Vector3 Vector3

datatype Matrix4 = Matrix4 (col0: Vector4) (col1: Vector4) (col2: Vector4) (col3: Vector4)

definition add4 :: "Vector4 \<Rightarrow> Vector4 \<Rightarrow> Vector4" where
  "add4 a b = Vector4 (wx a + wx b) (wy a + wy b) (wz a + wz b) (ww a + ww b)"

definition scale4 :: "real \<Rightarrow> Vector4 \<Rightarrow> Vector4" where
  "scale4 k a = Vector4 (k * wx a) (k * wy a) (k * wz a) (k * ww a)"

text \<open>Matrix times column vector: the linear combination of the columns.\<close>

definition mulv :: "Matrix4 \<Rightarrow> Vector4 \<Rightarrow> Vector4" where
  "mulv m v = add4 (add4 (scale4 (wx v) (col0 m)) (scale4 (wy v) (col1 m)))
                   (add4 (scale4 (wz v) (col2 m)) (scale4 (ww v) (col3 m)))"

text \<open>
  \<^verbatim>\<open>operator*\<close> of \<^verbatim>\<open>Magnum::Matrix4\<close> is the matrix product, and the default constructor
  \<^verbatim>\<open>Magnum::Matrix4{}\<close> is the identity matrix.
\<close>

instantiation Matrix4 :: monoid_mult
begin

definition one_Matrix4 :: Matrix4 where
  "one_Matrix4 = Matrix4 (Vector4 1 0 0 0) (Vector4 0 1 0 0) (Vector4 0 0 1 0) (Vector4 0 0 0 1)"

definition times_Matrix4 :: "Matrix4 \<Rightarrow> Matrix4 \<Rightarrow> Matrix4" where
  "times_Matrix4 a b =
     Matrix4 (mulv a (col0 b)) (mulv a (col1 b)) (mulv a (col2 b)) (mulv a (col3 b))"

instance
proof
  fix a b c :: Matrix4
  have lin: "mulv a (mulv b v) = mulv (a * b) v" for v
    by (simp add: mulv_def add4_def scale4_def times_Matrix4_def algebra_simps)
  have cols: "col0 (b * c) = mulv b (col0 c)" "col1 (b * c) = mulv b (col1 c)"
    "col2 (b * c) = mulv b (col2 c)" "col3 (b * c) = mulv b (col3 c)"
    by (simp_all add: times_Matrix4_def)
  have "a * (b * c) = Matrix4 (mulv a (col0 (b * c))) (mulv a (col1 (b * c)))
      (mulv a (col2 (b * c))) (mulv a (col3 (b * c)))"
    by (rule times_Matrix4_def)
  also have "\<dots> = Matrix4 (mulv (a * b) (col0 c)) (mulv (a * b) (col1 c))
      (mulv (a * b) (col2 c)) (mulv (a * b) (col3 c))"
    by (simp only: cols lin)
  also have "\<dots> = a * b * c"
    by (rule times_Matrix4_def [symmetric])
  finally show "a * b * c = a * (b * c)"
    by (rule sym)
  show "1 * a = a"
    by (cases a; cases "col0 a"; cases "col1 a"; cases "col2 a"; cases "col3 a")
       (simp add: times_Matrix4_def one_Matrix4_def mulv_def add4_def scale4_def)
  show "a * 1 = a"
    by (cases a; cases "col0 a"; cases "col1 a"; cases "col2 a"; cases "col3 a")
       (simp add: times_Matrix4_def one_Matrix4_def mulv_def add4_def scale4_def)
qed

end

datatype Range3D = Range3D (rmin: Vector3) (rmax: Vector3)

text \<open>\<^verbatim>\<open>Magnum::Range3D{}\<close>: the zero-initialised range, which the code treats as empty.\<close>

definition Range3D_default :: Range3D where
  "Range3D_default = Range3D (Vector3 0 0 0) (Vector3 0 0 0)"

definition min3 :: "Vector3 \<Rightarrow> Vector3 \<Rightarrow> Vector3" where
  "min3 a b = Vector3 (min (vx a) (vx b)) (min (vy a) (vy b)) (min (vz a) (vz b))"

definition max3 :: "Vector3 \<Rightarrow> Vector3 \<Rightarrow> Vector3" where
  "max3 a b = Vector3 (max (vx a) (vx b)) (max (vy a) (vy b)) (max (vz a) (vz b))"

text \<open>
  Modelled from the spec: \<^verbatim>\<open>Magnum::Math::join\<close> is library code outside the sources. The
  spec describes it as the merge of two boxes into the box bounding both (so that merging
  with the default box would pull the origin into the bound): componentwise minimum of the
  lower corners and maximum of the upper corners.
\<close>

definition join :: "Range3D \<Rightarrow> Range3D \<Rightarrow> Range3D" where
  "join a b = Range3D (min3 (rmin a) (rmin b)) (max3 (rmax a) (rmax b))"

section \<open>Assets and the resource manager\<close>

text \<open>
  Modelled from the spec: the constant \<^verbatim>\<open>ID_UNDEFINED\<close> is declared outside the sources
  (in the core headers of the repository); it is the "undefined" sentinel of a mesh index,
  never a valid position in a mesh group, here the value -1.
\<close>

definition ID_UNDEFINED :: int where
  "ID_UNDEFINED = - 1"

datatype MeshTransformNode =
  MeshTransformNode (transformFromLocalToParent: Matrix4) (meshIDLocal: int)
    (children: "MeshTransformNode list")

record CollisionMeshData =
  positions :: "Vector3 list"
  indices :: "32 word list"

text \<open>
  Of \<^verbatim>\<open>MeshMetaData\<close> and \<^verbatim>\<open>LoadedAssetData\<close> only the members read by the physics code
  are kept. Member names drop the trailing underscore of the source
  (\<^verbatim>\<open>resourceDict_\<close>, \<^verbatim>\<open>bWorld_\<close>, ...), and \<^verbatim>\<open>MeshMetaData::root\<close> is \<open>root_node\<close>.
\<close>

record MeshMetaData =
  root_node :: MeshTransformNode

record LoadedAssetData =
  meshMetaData :: MeshMetaData

record ResourceManager =
  resourceDict :: "string \<rightharpoonup> LoadedAssetData"
  collisionMeshGroups :: "string \<rightharpoonup> CollisionMeshData list"

text \<open>
  Ways in which an operation does not return: a failed \<^verbatim>\<open>CHECK\<close> aborts the process; an
  index outside a vector and a dereference of a pointer to no live object are undefined
  behaviour in C++ and are kept apart from every regular result.
\<close>

datatype error = CheckFailed | OutOfBounds | InvalidPointer

text \<open>
  \<^verbatim>\<open>CHECK(collisionMeshGroups_.count(h) > 0); return collisionMeshGroups_.at(h);\<close>
  The count of a \<^verbatim>\<open>std::map\<close> is positive exactly when the key has an entry.
\<close>

definition getCollisionMesh :: "ResourceManager \<Rightarrow> string \<Rightarrow> error + CollisionMeshData list" where
  "getCollisionMesh resMgr collisionAssetHandle =
     (case collisionMeshGroups resMgr collisionAssetHandle of
        None \<Rightarrow> Inl CheckFailed
      | Some meshGroup \<Rightarrow> Inr meshGroup)"

definition getMeshMetaData :: "ResourceManager \<Rightarrow> string \<Rightarrow> error + MeshMetaData" where
  "getMeshMetaData resMgr metaDataName =
     (case resourceDict resMgr metaDataName of
        None \<Rightarrow> Inl CheckFailed
      | Some loaded \<Rightarrow> Inr (meshMetaData loaded))"

section \<open>Floating-point coefficients\<close>

text \<open>
  The coefficients of friction and restitution are \<^verbatim>\<open>double\<close> in the interface of the class
  and \<^verbatim>\<open>btScalar\<close> inside Bullet. \<^verbatim>\<open>btScalar\<close> is \<^verbatim>\<open>float\<close> here: the code converts between
  \<^verbatim>\<open>Magnum::Vector3\<close> (three floats) and \<^verbatim>\<open>btVector3\<close> directly, which only the
  single-precision build of Bullet admits. A value of either type is its exact real value
  when it is finite, an infinity, or not a number; the sign of a zero is not kept. Every
  real number is admitted as a finite \<^verbatim>\<open>double\<close>, the values of the type among them.
\<close>

datatype floating = Finite real | PlusInfinity | MinusInfinity | NotANumber

type_synonym double = floating

type_synonym btScalar = floating

text \<open>Rounding to the nearest integer, a tie to the even one.\<close>

definition roundHalfEven :: "real \<Rightarrow> int" where
  "roundHalfEven q =
     (let n = \<lfloor>q\<rfloor>; d = q - of_int n
      in if d < 1 / 2 then n else if 1 / 2 < d then n + 1 else if even n then n else n + 1)"

text \<open>
  The exponent of the binade of a magnitude \<open>x * 2 ^ e\<close>, kept between -126 (below it the
  values of a \<^verbatim>\<open>float\<close> are subnormal) and 128 (from it on the magnitude overflows). The first
  argument bounds the number of steps; 254 steps reach every exponent from 0.
\<close>

fun binade :: "nat \<Rightarrow> real \<Rightarrow> int \<Rightarrow> int" where
  "binade 0 x e = e"
| "binade (Suc fuel) x e =
     (if 2 \<le> x \<and> e < 128 then binade fuel (x / 2) (e + 1)
      else if x < 1 \<and> - 126 < e then binade fuel (x * 2) (e - 1)
      else e)"

definition pow2 :: "int \<Rightarrow> real" where
  "pow2 e = (if 0 \<le> e then 2 ^ nat e else 1 / 2 ^ nat (- e))"

text \<open>
  The conversion of a finite \<^verbatim>\<open>double\<close> to \<^verbatim>\<open>float\<close> (IEEE 754 binary32, round to nearest,
  ties to even): the value is rounded to a multiple of the spacing of its binade, which is
  2 to the exponent minus 23 for the 24 bits of a significand, and a result of magnitude
  \<open>2 ^ 128\<close> or more is an infinity.
\<close>

definition narrowToFloat :: "real \<Rightarrow> btScalar" where
  "narrowToFloat r =
     (let e = binade 254 \<bar>r\<bar> 0;
          ulp = pow2 (e - 23);
          v = of_int (roundHalfEven (r / ulp)) * ulp
      in if pow2 128 \<le> \<bar>v\<bar> then (if 0 < r then PlusInfinity else MinusInfinity)
         else Finite v)"

text \<open>
  A \<^verbatim>\<open>double\<close> argument passed to a \<^verbatim>\<open>btScalar\<close> parameter. The way back, from \<^verbatim>\<open>btScalar\<close> to
  \<^verbatim>\<open>double\<close> in the getters, changes no value.
\<close>

definition toBtScalar :: "double \<Rightarrow> btScalar" where
  "toBtScalar d = (case d of Finite r \<Rightarrow> narrowToFloat r | _ \<Rightarrow> d)"

section \<open>Bullet objects, the free store and the dynamics world\<close>

type_synonym addr = nat

datatype PHY_ScalarType = PHY_FLOAT | PHY_DOUBLE | PHY_INTEGER | PHY_SHORT

text \<open>
  \<^verbatim>\<open>btIndexedMesh\<close>: the counts and strides are C \<^verbatim>\<open>int\<close>s (32 bits, read with \<open>sint\<close>).
  The two base pointers view the buffers of the mesh without copying; a pointer is
  represented by the buffer it views.
\<close>

record btIndexedMesh =
  m_numTriangles :: "32 word"
  m_triangleIndexBase :: "32 word list"
  m_triangleIndexStride :: "32 word"
  m_numVertices :: "32 word"
  m_vertexBase :: "Vector3 list"
  m_vertexStride :: "32 word"
  m_indexType :: PHY_ScalarType
  m_vertexType :: PHY_ScalarType

record btTriangleIndexVertexArray =
  m_indexedMeshes :: "btIndexedMesh list"

definition addIndexedMesh ::
  "btIndexedMesh \<Rightarrow> PHY_ScalarType \<Rightarrow> btTriangleIndexVertexArray \<Rightarrow> btTriangleIndexVertexArray" where
  "addIndexedMesh mesh indexType arr =
     arr\<lparr>m_indexedMeshes := m_indexedMeshes arr @ [mesh\<lparr>m_indexType := indexType\<rparr>]\<rparr>"

record btBvhTriangleMeshShape =
  m_meshInterface :: addr
  m_useQuantizedAabbCompression :: bool
  m_collisionMargin :: real
  m_localScaling :: Vector3

record btTransform =
  basis :: Matrix3x3
  origin :: Vector3

record btCollisionObject =
  m_collisionShape :: "addr option"
  m_worldTransform :: btTransform
  m_friction :: btScalar
  m_restitution :: btScalar

text \<open>
  What the code takes from Magnum and Bullet without their sources being part of the
  repository: the three decompositions of a \<^verbatim>\<open>Matrix4\<close>, the bounding-box query of a shape
  at a placement, and the collision object as its constructor leaves it. They are
  parameters of everything below.
\<close>

record externals =
  scaling :: "Matrix4 \<Rightarrow> Vector3"
  rotation :: "Matrix4 \<Rightarrow> Matrix3x3"
  translation :: "Matrix4 \<Rightarrow> Vector3"
  getAabb :: "btBvhTriangleMeshShape \<Rightarrow> btTransform \<Rightarrow> Vector3 \<times> Vector3"
  newCollisionObject :: btCollisionObject

record PhysicsSceneAttributes =
  collisionAssetHandle :: string
  frictionCoefficient :: double
  restitutionCoefficient :: double

text \<open>
  A \<^verbatim>\<open>BulletRigidScene\<close> with the memory it works on. The three stores are the free store,
  one per pointee type: an address is a position, \<open>None\<close> a released cell, and an
  allocation appends, so that a new address is never one in use. \<open>bWorld\<close> is the array of
  collision objects registered in the shared dynamics world. The last three members are
  the vectors of owning pointers of the class.
\<close>

record BulletRigidScene =
  arrayStore :: "btTriangleIndexVertexArray option list"
  shapeStore :: "btBvhTriangleMeshShape option list"
  objectStore :: "btCollisionObject option list"
  bWorld :: "addr list"
  initializationAttributes :: PhysicsSceneAttributes
  bSceneArrays :: "addr list"
  bSceneShapes :: "addr list"
  bStaticCollisionObjects :: "addr list"

definition derefShape :: "BulletRigidScene \<Rightarrow> addr \<Rightarrow> btBvhTriangleMeshShape option" where
  "derefShape st p = (if p < length (shapeStore st) then shapeStore st ! p else None)"

definition derefObject :: "BulletRigidScene \<Rightarrow> addr \<Rightarrow> btCollisionObject option" where
  "derefObject st p = (if p < length (objectStore st) then objectStore st ! p else None)"

definition derefArray :: "BulletRigidScene \<Rightarrow> addr \<Rightarrow> btTriangleIndexVertexArray option" where
  "derefArray st p = (if p < length (arrayStore st) then arrayStore st ! p else None)"

text \<open>\<^verbatim>\<open>std::make_unique\<close>, one function per pointee type.\<close>

definition newArray :: "btTriangleIndexVertexArray \<Rightarrow> BulletRigidScene \<Rightarrow> addr \<times> BulletRigidScene" where
  "newArray a st = (length (arrayStore st), st\<lparr>arrayStore := arrayStore st @ [Some a]\<rparr>)"

definition newShape :: "btBvhTriangleMeshShape \<Rightarrow> BulletRigidScene \<Rightarrow> addr \<times> BulletRigidScene" where
  "newShape s st = (length (shapeStore st), st\<lparr>shapeStore := shapeStore st @ [Some s]\<rparr>)"

definition newObject :: "btCollisionObject \<Rightarrow> BulletRigidScene \<Rightarrow> addr \<times> BulletRigidScene" where
  "newObject ob st = (length (objectStore st), st\<lparr>objectStore := objectStore st @ [Some ob]\<rparr>)"

text \<open>A write through an object pointer (\<^verbatim>\<open>object->setFriction(...)\<close> and the like).\<close>

definition updateObject ::
  "addr \<Rightarrow> (btCollisionObject \<Rightarrow> btCollisionObject) \<Rightarrow> BulletRigidScene \<Rightarrow> error + BulletRigidScene" where
  "updateObject p f st =
     (case derefObject st p of
        None \<Rightarrow> Inl InvalidPointer
      | Some ob \<Rightarrow> Inr (st\<lparr>objectStore := (objectStore st)[p := Some (f ob)]\<rparr>))"

text \<open>
  The dynamics world is a collaborator: \<^verbatim>\<open>addCollisionObject\<close> enters a pointer in its
  array of registered objects and \<^verbatim>\<open>removeCollisionObject\<close> takes one entry of the pointer
  out of it.
\<close>

definition addCollisionObject :: "addr \<Rightarrow> addr list \<Rightarrow> addr list" where
  "addCollisionObject p world = world @ [p]"

definition removeCollisionObject :: "addr \<Rightarrow> addr list \<Rightarrow> addr list" where
  "removeCollisionObject p world = remove1 p world"

text \<open>A loop over a vector of pointers whose body may fail.\<close>

fun forEach :: "('a \<Rightarrow> 's \<Rightarrow> error + 's) \<Rightarrow> 'a list \<Rightarrow> 's \<Rightarrow> error + 's" where
  "forEach body [] st = Inr st"
| "forEach body (p # ps) st =
     (case body p st of Inl e \<Rightarrow> Inl e | Inr st1 \<Rightarrow> forEach body ps st1)"

section \<open>BulletRigidScene\<close>

subsection \<open>Building the collision objects\<close>

text \<open>
  \<^verbatim>\<open>sizeof(Magnum::UnsignedInt)\<close> and \<^verbatim>\<open>sizeof(Magnum::Vector3)\<close>: a 32-bit unsigned integer
  and three 32-bit floats.
\<close>

definition sizeof_UnsignedInt :: nat where
  "sizeof_UnsignedInt = 4"

definition sizeof_Vector3 :: nat where
  "sizeof_Vector3 = 3 * 4"

text \<open>
  The \<^verbatim>\<open>btIndexedMesh\<close> filled in for one mesh (lines 62 to 78 of BulletRigidScene.cpp). The
  sizes are \<^verbatim>\<open>size_t\<close> values stored into \<^verbatim>\<open>int\<close> members.
\<close>

definition configureBulletMesh :: "CollisionMeshData \<Rightarrow> btIndexedMesh" where
  "configureBulletMesh mesh =
     \<lparr>m_numTriangles = of_nat (length (indices mesh) div 3),
      m_triangleIndexBase = indices mesh,
      m_triangleIndexStride = of_nat (3 * sizeof_UnsignedInt),
      m_numVertices = of_nat (length (positions mesh)),
      m_vertexBase = positions mesh,
      m_vertexStride = of_nat sizeof_Vector3,
      m_indexType = PHY_INTEGER,
      m_vertexType = PHY_FLOAT\<rparr>"

text \<open>
  The body of the \<^verbatim>\<open>if\<close> of \<^verbatim>\<open>constructBulletSceneFromMeshes\<close> (lines 59 to 106), for the
  mesh found in the mesh group: one vertex array, one shape on it, one collision object on
  the shape, each allocated and its owning pointer appended to the vector of its kind.
  The optimized BVH that \<^verbatim>\<open>buildOptimizedBvh\<close> rebuilds is internal to Bullet.
\<close>

definition createStaticMesh ::
  "externals \<Rightarrow> Matrix4 \<Rightarrow> CollisionMeshData \<Rightarrow> BulletRigidScene \<Rightarrow> BulletRigidScene" where
  "createStaticMesh X transformFromLocalToWorld mesh st =
     (let bulletMesh = configureBulletMesh mesh;
          (indexedVertexArray, st1) =
             newArray (addIndexedMesh bulletMesh PHY_INTEGER \<lparr>m_indexedMeshes = []\<rparr>) st;
          (meshShape, st2) =
             newShape \<lparr>m_meshInterface = indexedVertexArray,
                       m_useQuantizedAabbCompression = True,
                       m_collisionMargin = 4 / 100,
                       m_localScaling = scaling X transformFromLocalToWorld\<rparr> st1;
          (sceneCollisionObject, st3) =
             newObject ((newCollisionObject X)
                          \<lparr>m_collisionShape := Some meshShape,
                           m_worldTransform :=
                             \<lparr>basis = rotation X transformFromLocalToWorld,
                              origin = translation X transformFromLocalToWorld\<rparr>\<rparr>) st2
      in st3\<lparr>bSceneArrays := bSceneArrays st3 @ [indexedVertexArray],
             bSceneShapes := bSceneShapes st3 @ [meshShape],
             bStaticCollisionObjects := bStaticCollisionObjects st3 @ [sceneCollisionObject]\<rparr>)"

text \<open>
  \<^verbatim>\<open>constructBulletSceneFromMeshes\<close> with its loop over the children. \<^verbatim>\<open>meshGroup[i]\<close> on a
  \<^verbatim>\<open>std::vector\<close> is defined only for a position inside the vector.
\<close>

fun constructBulletSceneFromMeshes ::
    "externals \<Rightarrow> Matrix4 \<Rightarrow> CollisionMeshData list \<Rightarrow> MeshTransformNode \<Rightarrow>
     BulletRigidScene \<Rightarrow> error + BulletRigidScene"
  and constructChildren ::
    "externals \<Rightarrow> Matrix4 \<Rightarrow> CollisionMeshData list \<Rightarrow> MeshTransformNode list \<Rightarrow>
     BulletRigidScene \<Rightarrow> error + BulletRigidScene"
where
  "constructBulletSceneFromMeshes X transformFromParentToWorld meshGroup
       (MeshTransformNode localToParent meshID childNodes) st =
     (let transformFromLocalToWorld = transformFromParentToWorld * localToParent
      in case (if meshID \<noteq> ID_UNDEFINED
               then (if 0 \<le> meshID \<and> meshID < int (length meshGroup)
                     then Inr (createStaticMesh X transformFromLocalToWorld
                                 (meshGroup ! nat meshID) st)
                     else Inl OutOfBounds)
               else Inr st) of
           Inl e \<Rightarrow> Inl e
         | Inr st1 \<Rightarrow> constructChildren X transformFromLocalToWorld meshGroup childNodes st1)"
| "constructChildren X transformFromLocalToWorld meshGroup [] st = Inr st"
| "constructChildren X transformFromLocalToWorld meshGroup (child # rest) st =
     (case constructBulletSceneFromMeshes X transformFromLocalToWorld meshGroup child st of
        Inl e \<Rightarrow> Inl e
      | Inr st1 \<Rightarrow> constructChildren X transformFromLocalToWorld meshGroup rest st1)"

subsection \<open>Initialization and teardown\<close>

text \<open>
  The body of the loop of \<^verbatim>\<open>initialization_LibSpecific\<close> (lines 42 to 45): two writes
  through the object pointer, then the registration with the world. The attributes hold the
  coefficients as \<^verbatim>\<open>double\<close>, and each write converts its argument to \<^verbatim>\<open>btScalar\<close>.
\<close>

definition registerObject :: "addr \<Rightarrow> BulletRigidScene \<Rightarrow> error + BulletRigidScene" where
  "registerObject object st =
     (case updateObject object
             (\<lambda>ob. ob\<lparr>m_friction :=
                         toBtScalar (frictionCoefficient (initializationAttributes st))\<rparr>) st of
        Inl e \<Rightarrow> Inl e
      | Inr st1 \<Rightarrow>
         (case updateObject object
                 (\<lambda>ob. ob\<lparr>m_restitution :=
                             toBtScalar (restitutionCoefficient (initializationAttributes st1))\<rparr>)
                 st1 of
            Inl e \<Rightarrow> Inl e
          | Inr st2 \<Rightarrow> Inr (st2\<lparr>bWorld := addCollisionObject object (bWorld st2)\<rparr>)))"

definition initialization_LibSpecific ::
  "externals \<Rightarrow> ResourceManager \<Rightarrow> BulletRigidScene \<Rightarrow> error + (bool \<times> BulletRigidScene)" where
  "initialization_LibSpecific X resMgr st =
     (let handle = collisionAssetHandle (initializationAttributes st)
      in case getCollisionMesh resMgr handle of
           Inl e \<Rightarrow> Inl e
         | Inr meshGroup \<Rightarrow>
            (case getMeshMetaData resMgr handle of
               Inl e \<Rightarrow> Inl e
             | Inr metaData \<Rightarrow>
                (case constructBulletSceneFromMeshes X 1 meshGroup (root_node metaData) st of
                   Inl e \<Rightarrow> Inl e
                 | Inr st1 \<Rightarrow>
                    (case forEach registerObject (bStaticCollisionObjects st1) st1 of
                       Inl e \<Rightarrow> Inl e
                     | Inr st2 \<Rightarrow> Inr (True, st2)))))"

text \<open>
  The destructor: its body takes every collision object of the scene out of the world;
  then the members are destroyed, which releases what the owning pointers hold.
\<close>

definition destructorBody :: "BulletRigidScene \<Rightarrow> BulletRigidScene" where
  "destructorBody st =
     st\<lparr>bWorld := fold removeCollisionObject (bStaticCollisionObjects st) (bWorld st)\<rparr>"

definition release :: "addr list \<Rightarrow> 'a option list \<Rightarrow> 'a option list" where
  "release ps store = fold (\<lambda>p s. s[p := None]) ps store"

definition destroyMembers :: "BulletRigidScene \<Rightarrow> BulletRigidScene" where
  "destroyMembers st =
     st\<lparr>objectStore := release (bStaticCollisionObjects st) (objectStore st),
        shapeStore := release (bSceneShapes st) (shapeStore st),
        arrayStore := release (bSceneArrays st) (arrayStore st),
        bStaticCollisionObjects := [],
        bSceneShapes := [],
        bSceneArrays := []\<rparr>"

definition BulletRigidScene_destructor :: "BulletRigidScene \<Rightarrow> BulletRigidScene" where
  "BulletRigidScene_destructor st = destroyMembers (destructorBody st)"

subsection \<open>Friction, restitution and the bounding box\<close>

text \<open>
  The setters take a \<^verbatim>\<open>double\<close> and hand it to \<^verbatim>\<open>setFriction\<close> and \<^verbatim>\<open>setRestitution\<close> of
  every collision object, whose parameter is a \<^verbatim>\<open>btScalar\<close>: the object stores the converted
  value. The getters return 0.0 when the vector is empty, and otherwise what
  \<^verbatim>\<open>getFriction\<close> and \<^verbatim>\<open>getRestitution\<close> of the last object give.
\<close>

definition setFrictionCoefficient :: "double \<Rightarrow> BulletRigidScene \<Rightarrow> error + BulletRigidScene" where
  "setFrictionCoefficient frictionCoefficient' st =
     forEach (\<lambda>p. updateObject p (\<lambda>ob. ob\<lparr>m_friction := toBtScalar frictionCoefficient'\<rparr>))
       (bStaticCollisionObjects st) st"

definition setRestitutionCoefficient :: "double \<Rightarrow> BulletRigidScene \<Rightarrow> error + BulletRigidScene" where
  "setRestitutionCoefficient restitutionCoefficient' st =
     forEach
       (\<lambda>p. updateObject p (\<lambda>ob. ob\<lparr>m_restitution := toBtScalar restitutionCoefficient'\<rparr>))
       (bStaticCollisionObjects st) st"

definition getFrictionCoefficient :: "BulletRigidScene \<Rightarrow> error + double" where
  "getFrictionCoefficient st =
     (if length (bStaticCollisionObjects st) = 0 then Inr (Finite 0)
      else case derefObject st (last (bStaticCollisionObjects st)) of
             None \<Rightarrow> Inl InvalidPointer
           | Some ob \<Rightarrow> Inr (m_friction ob))"

definition getRestitutionCoefficient :: "BulletRigidScene \<Rightarrow> error + double" where
  "getRestitutionCoefficient st =
     (if length (bStaticCollisionObjects st) = 0 then Inr (Finite 0)
      else case derefObject st (last (bStaticCollisionObjects st)) of
             None \<Rightarrow> Inl InvalidPointer
           | Some ob \<Rightarrow> Inr (m_restitution ob))"

text \<open>
  The box of one component, as the loop body of \<^verbatim>\<open>getCollisionShapeAabb\<close> obtains it:
  through the object pointer, then through its shape pointer, by the shape's own query at
  the object's world transform.
\<close>

definition componentAabb :: "externals \<Rightarrow> BulletRigidScene \<Rightarrow> addr \<Rightarrow> error + Range3D" where
  "componentAabb X st object =
     (case derefObject st object of
        None \<Rightarrow> Inl InvalidPointer
      | Some ob \<Rightarrow>
         (case m_collisionShape ob of
            None \<Rightarrow> Inl InvalidPointer
          | Some ps \<Rightarrow>
             (case derefShape st ps of
                None \<Rightarrow> Inl InvalidPointer
              | Some shape \<Rightarrow>
                 (case getAabb X shape (m_worldTransform ob) of
                    (localAabbMin, localAabbMax) \<Rightarrow> Inr (Range3D localAabbMin localAabbMax)))))"

definition getCollisionShapeAabb :: "externals \<Rightarrow> BulletRigidScene \<Rightarrow> error + Range3D" where
  "getCollisionShapeAabb X st =
     forEach
       (\<lambda>object combinedAABB.
          case componentAabb X st object of
            Inl e \<Rightarrow> Inl e
          | Inr box \<Rightarrow>
             Inr (if combinedAABB = Range3D_default then box else join combinedAABB box))
       (bStaticCollisionObjects st) Range3D_default"

section \<open>Notions of the specification\<close>

text \<open>
  The world transform of every node of a hierarchy, in the order of the walk (a node before
  its children, children in sequence), each paired with the node's mesh index: the world
  transform of a node is the world transform of its parent times its own
  \<open>transformFromLocalToParent\<close>, starting from the transform given for the root's parent.
\<close>

fun worldTransforms :: "Matrix4 \<Rightarrow> MeshTransformNode \<Rightarrow> (Matrix4 \<times> int) list"
  and worldTransformsOfAll :: "Matrix4 \<Rightarrow> MeshTransformNode list \<Rightarrow> (Matrix4 \<times> int) list"
where
  "worldTransforms parentToWorld (MeshTransformNode localToParent meshID childNodes) =
     (parentToWorld * localToParent, meshID)
       # worldTransformsOfAll (parentToWorld * localToParent) childNodes"
| "worldTransformsOfAll parentToWorld [] = []"
| "worldTransformsOfAll parentToWorld (child # rest) =
     worldTransforms parentToWorld child @ worldTransformsOfAll parentToWorld rest"

text \<open>The nodes that carry a mesh, with their world transforms.\<close>

definition meshNodes :: "Matrix4 \<Rightarrow> MeshTransformNode \<Rightarrow> (Matrix4 \<times> int) list" where
  "meshNodes parentToWorld node =
     filter (\<lambda>(W, meshID). meshID \<noteq> ID_UNDEFINED) (worldTransforms parentToWorld node)"

text \<open>The number of nodes of a hierarchy whose mesh index is defined.\<close>

fun countMeshNodes :: "MeshTransformNode \<Rightarrow> nat"
  and countMeshNodesOfAll :: "MeshTransformNode list \<Rightarrow> nat"
where
  "countMeshNodes (MeshTransformNode localToParent meshID childNodes) =
     (if meshID \<noteq> ID_UNDEFINED then 1 else 0) + countMeshNodesOfAll childNodes"
| "countMeshNodesOfAll [] = 0"
| "countMeshNodesOfAll (child # rest) = countMeshNodes child + countMeshNodesOfAll rest"

text \<open>
  A hierarchy fits a mesh group when every defined mesh index of it is a position in the
  group, as the data model has it ("index into the asset's local mesh group, or an
  undefined sentinel").
\<close>

fun wellIndexed :: "CollisionMeshData list \<Rightarrow> MeshTransformNode \<Rightarrow> bool"
  and wellIndexedAll :: "CollisionMeshData list \<Rightarrow> MeshTransformNode list \<Rightarrow> bool"
where
  "wellIndexed meshGroup (MeshTransformNode localToParent meshID childNodes) =
     ((meshID = ID_UNDEFINED \<or> (0 \<le> meshID \<and> meshID < int (length meshGroup)))
      \<and> wellIndexedAll meshGroup childNodes)"
| "wellIndexedAll meshGroup [] = True"
| "wellIndexedAll meshGroup (child # rest) =
     (wellIndexed meshGroup child \<and> wellIndexedAll meshGroup rest)"

text \<open>
  The ownership invariant of the class: every owning pointer of
  \<open>bStaticCollisionObjects\<close> refers to a live object, whose shape pointer refers to a live
  shape.
\<close>

definition ownsLiveObjects :: "BulletRigidScene \<Rightarrow> bool" where
  "ownsLiveObjects st =
     list_all (\<lambda>p. case derefObject st p of
                      None \<Rightarrow> False
                    | Some ob \<Rightarrow>
                       (case m_collisionShape ob of
                          None \<Rightarrow> False
                        | Some ps \<Rightarrow> derefShape st ps \<noteq> None))
       (bStaticCollisionObjects st)"

text \<open>
  The values of single precision: the infinities, not-a-number, and the reals \<open>m * 2 ^ k\<close>
  with a significand \<open>m\<close> of at most 24 bits and an exponent \<open>k\<close> from -149 to 104.
\<close>

definition singlePrecision :: "floating \<Rightarrow> bool" where
  "singlePrecision d =
     (case d of
        Finite r \<Rightarrow> (\<exists>m k. \<bar>m\<bar> < 2 ^ 24 \<and> - 149 \<le> k \<and> k \<le> 104 \<and> r = of_int m * pow2 k)
      | _ \<Rightarrow> True)"




section \<open>Auxiliary notions for the proofs\<close>

text \<open>The state after the shapes for a sequence of mesh nodes have been created in turn.\<close>

definition createAll ::
  "externals \<Rightarrow> CollisionMeshData list \<Rightarrow> (Matrix4 \<times> int) list \<Rightarrow> BulletRigidScene \<Rightarrow> BulletRigidScene" where
  "createAll X meshGroup nodes st =
     foldl (\<lambda>s (W, meshID). createStaticMesh X W (meshGroup ! nat meshID) s) st nodes"

text \<open>The three values that \<open>createStaticMesh\<close> allocates.\<close>

abbreviation arrayOf :: "CollisionMeshData \<Rightarrow> btTriangleIndexVertexArray" where
  "arrayOf mesh \<equiv> addIndexedMesh (configureBulletMesh mesh) PHY_INTEGER \<lparr>m_indexedMeshes = []\<rparr>"

abbreviation shapeOf :: "externals \<Rightarrow> addr \<Rightarrow> Matrix4 \<Rightarrow> btBvhTriangleMeshShape" where
  "shapeOf X pa W \<equiv>
     \<lparr>m_meshInterface = pa, m_useQuantizedAabbCompression = True,
      m_collisionMargin = 4 / 100, m_localScaling = scaling X W\<rparr>"

abbreviation objectOf :: "externals \<Rightarrow> addr \<Rightarrow> Matrix4 \<Rightarrow> btCollisionObject" where
  "objectOf X ps W \<equiv>
     (newCollisionObject X)
       \<lparr>m_collisionShape := Some ps,
        m_worldTransform := \<lparr>basis = rotation X W, origin = translation X W\<rparr>\<rparr>"

text \<open>The two writes of \<open>registerObject\<close> taken together.\<close>

abbreviation withCoefficients :: "BulletRigidScene \<Rightarrow> btCollisionObject \<Rightarrow> btCollisionObject" where
  "withCoefficients s \<equiv>
     (\<lambda>ob. ob\<lparr>m_friction := toBtScalar (frictionCoefficient (initializationAttributes s)),
               m_restitution := toBtScalar (restitutionCoefficient (initializationAttributes s))\<rparr>)"


section \<open>Concrete assets and scenes\<close>

text \<open>
  Transforms with exact entries, and an instance of the library functions: the scaling is
  the length of the three axis columns, the rotation the normalised columns, the
  translation the last column; the bounding box of a shape is the unit cube about the
  origin of the placement.
\<close>

definition translationMatrix :: "real \<Rightarrow> real \<Rightarrow> real \<Rightarrow> Matrix4" where
  "translationMatrix tx ty tz =
     Matrix4 (Vector4 1 0 0 0) (Vector4 0 1 0 0) (Vector4 0 0 1 0) (Vector4 tx ty tz 1)"

definition scalingMatrix :: "real \<Rightarrow> real \<Rightarrow> real \<Rightarrow> Matrix4" where
  "scalingMatrix sx sy sz =
     Matrix4 (Vector4 sx 0 0 0) (Vector4 0 sy 0 0) (Vector4 0 0 sz 0) (Vector4 0 0 0 1)"

definition quarterTurnZ :: Matrix4 where
  "quarterTurnZ =
     Matrix4 (Vector4 0 1 0 0) (Vector4 (- 1) 0 0 0) (Vector4 0 0 1 0) (Vector4 0 0 0 1)"

definition quarterTurnBasis :: Matrix3x3 where
  "quarterTurnBasis = Matrix3x3 (Vector3 0 1 0) (Vector3 (- 1) 0 0) (Vector3 0 0 1)"

definition unitBasis :: Matrix3x3 where
  "unitBasis = Matrix3x3 (Vector3 1 0 0) (Vector3 0 1 0) (Vector3 0 0 1)"

definition length3 :: "Vector4 \<Rightarrow> real" where
  "length3 c = sqrt (wx c * wx c + wy c * wy c + wz c * wz c)"

definition normalized3 :: "Vector4 \<Rightarrow> Vector3" where
  "normalized3 c = Vector3 (wx c / length3 c) (wy c / length3 c) (wz c / length3 c)"

definition exampleExternals :: externals where
  "exampleExternals =
     \<lparr>scaling = (\<lambda>m. Vector3 (length3 (col0 m)) (length3 (col1 m)) (length3 (col2 m))),
      rotation =
        (\<lambda>m. Matrix3x3 (normalized3 (col0 m)) (normalized3 (col1 m)) (normalized3 (col2 m))),
      translation = (\<lambda>m. Vector3 (wx (col3 m)) (wy (col3 m)) (wz (col3 m))),
      getAabb = (\<lambda>shape placement.
         (Vector3 (vx (origin placement) - 1 / 2) (vy (origin placement) - 1 / 2)
                  (vz (origin placement) - 1 / 2),
          Vector3 (vx (origin placement) + 1 / 2) (vy (origin placement) + 1 / 2)
                  (vz (origin placement) + 1 / 2))),
      newCollisionObject =
        \<lparr>m_collisionShape = None,
         m_worldTransform = \<lparr>basis = unitBasis, origin = Vector3 0 0 0\<rparr>,
         m_friction = Finite (1 / 2),
         m_restitution = Finite 0\<rparr>\<rparr>"

text \<open>Hierarchies: one mesh node; a root and a child; a group node over three cubes at
  (0,0,0), (10,0,0) and (0,10,0); a turned and scaled node; a group of groups.\<close>

definition exampleNode :: MeshTransformNode where
  "exampleNode = MeshTransformNode 1 0 []"

definition twoLevels :: MeshTransformNode where
  "twoLevels =
     MeshTransformNode (translationMatrix 10 0 0) 0
       [MeshTransformNode (translationMatrix 0 10 0) 0 []]"

definition threeCubes :: MeshTransformNode where
  "threeCubes =
     MeshTransformNode 1 ID_UNDEFINED
       [MeshTransformNode 1 0 [],
        MeshTransformNode (translationMatrix 10 0 0) 0 [],
        MeshTransformNode (translationMatrix 0 10 0) 0 []]"

definition scaledTurnedNode :: MeshTransformNode where
  "scaledTurnedNode =
     MeshTransformNode (translationMatrix 5 6 7 * quarterTurnZ * scalingMatrix 2 3 4) 0 []"

definition groupOnly :: MeshTransformNode where
  "groupOnly =
     MeshTransformNode 1 ID_UNDEFINED
       [MeshTransformNode (translationMatrix 1 2 3) ID_UNDEFINED []]"

definition exampleMesh :: CollisionMeshData where
  "exampleMesh =
     \<lparr>positions = [Vector3 0 0 0, Vector3 1 0 0, Vector3 0 1 0], indices = [0, 1, 2]\<rparr>"

text \<open>A mesh of 6442450944 indices: 2147483648 triangles, one more than a C int holds.\<close>

definition hugeMesh :: CollisionMeshData where
  "hugeMesh = \<lparr>positions = [], indices = replicate 6442450944 0\<rparr>"

definition exampleManager :: ResourceManager where
  "exampleManager =
     \<lparr>resourceDict =
        [''cube.glb'' \<mapsto> \<lparr>meshMetaData = \<lparr>root_node = exampleNode\<rparr>\<rparr>,
         ''cubes.glb'' \<mapsto> \<lparr>meshMetaData = \<lparr>root_node = threeCubes\<rparr>\<rparr>],
      collisionMeshGroups =
        [''cube.glb'' \<mapsto> [exampleMesh], ''cubes.glb'' \<mapsto> [exampleMesh]]\<rparr>"

definition emptyManager :: ResourceManager where
  "emptyManager = \<lparr>resourceDict = Map.empty, collisionMeshGroups = Map.empty\<rparr>"

definition groupManager :: ResourceManager where
  "groupManager =
     \<lparr>resourceDict = [''cubes.glb'' \<mapsto> \<lparr>meshMetaData = \<lparr>root_node = groupOnly\<rparr>\<rparr>],
      collisionMeshGroups = [''cubes.glb'' \<mapsto> []]\<rparr>"

text \<open>
  A scene just constructed, in a world that already holds the object of another scene at
  address 0; and the same scene after its initialization from \<open>exampleManager\<close>.
\<close>

definition otherObject :: btCollisionObject where
  "otherObject =
     \<lparr>m_collisionShape = Some 0,
      m_worldTransform = \<lparr>basis = unitBasis, origin = Vector3 0 0 (- 5)\<rparr>,
      m_friction = Finite (1 / 2), m_restitution = Finite 0\<rparr>"

definition otherShape :: btBvhTriangleMeshShape where
  "otherShape =
     \<lparr>m_meshInterface = 0, m_useQuantizedAabbCompression = True,
      m_collisionMargin = 4 / 100, m_localScaling = Vector3 1 1 1\<rparr>"

definition freshScene :: BulletRigidScene where
  "freshScene =
     \<lparr>arrayStore = [Some \<lparr>m_indexedMeshes = []\<rparr>],
      shapeStore = [Some otherShape],
      objectStore = [Some otherObject],
      bWorld = [0],
      initializationAttributes =
        \<lparr>collisionAssetHandle = ''cubes.glb'', frictionCoefficient = Finite (3 / 4),
         restitutionCoefficient = Finite (1 / 8)\<rparr>,
      bSceneArrays = [], bSceneShapes = [], bStaticCollisionObjects = []\<rparr>"

definition cubeObject :: "addr \<Rightarrow> Vector3 \<Rightarrow> btCollisionObject" where
  "cubeObject shape centre =
     \<lparr>m_collisionShape = Some shape,
      m_worldTransform = \<lparr>basis = unitBasis, origin = centre\<rparr>,
      m_friction = Finite (3 / 4), m_restitution = Finite (1 / 8)\<rparr>"

definition cubeShape :: "addr \<Rightarrow> btBvhTriangleMeshShape" where
  "cubeShape array =
     \<lparr>m_meshInterface = array, m_useQuantizedAabbCompression = True,
      m_collisionMargin = 4 / 100, m_localScaling = Vector3 1 1 1\<rparr>"

definition cubeArray :: btTriangleIndexVertexArray where
  "cubeArray =
     \<lparr>m_indexedMeshes =
        [\<lparr>m_numTriangles = 1, m_triangleIndexBase = [0, 1, 2], m_triangleIndexStride = 12,
          m_numVertices = 3, m_vertexBase = [Vector3 0 0 0, Vector3 1 0 0, Vector3 0 1 0],
          m_vertexStride = 12, m_indexType = PHY_INTEGER, m_vertexType = PHY_FLOAT\<rparr>]\<rparr>"

definition threeCubesScene :: BulletRigidScene where
  "threeCubesScene =
     \<lparr>arrayStore = [Some \<lparr>m_indexedMeshes = []\<rparr>, Some cubeArray, Some cubeArray, Some cubeArray],
      shapeStore = [Some otherShape, Some (cubeShape 1), Some (cubeShape 2), Some (cubeShape 3)],
      objectStore =
        [Some otherObject, Some (cubeObject 1 (Vector3 0 0 0)),
         Some (cubeObject 2 (Vector3 10 0 0)), Some (cubeObject 3 (Vector3 0 10 0))],
      bWorld = [0, 1, 2, 3],
      initializationAttributes =
        \<lparr>collisionAssetHandle = ''cubes.glb'', frictionCoefficient = Finite (3 / 4),
         restitutionCoefficient = Finite (1 / 8)\<rparr>,
      bSceneArrays = [1, 2, 3], bSceneShapes = [1, 2, 3], bStaticCollisionObjects = [1, 2, 3]\<rparr>"





text \<open>
  The \<^verbatim>\<open>double\<close> nearest to 0.7 and the \<^verbatim>\<open>float\<close> nearest to it; the \<^verbatim>\<open>double\<close> nearest to
  \<open>10 ^ 40\<close>, beyond the range of a \<^verbatim>\<open>float\<close>; and the three cubes with other coefficients
  on their objects.
\<close>

definition double_0_7 :: double where
  "double_0_7 = Finite (3152519739159347 / 4503599627370496)"

definition float_0_7 :: btScalar where
  "float_0_7 = Finite (11744051 / 16777216)"

definition double_1e40 :: double where
  "double_1e40 = Finite 10000000000000000303786028427003666890752"

definition cubesWith :: "btScalar \<Rightarrow> btScalar \<Rightarrow> BulletRigidScene" where
  "cubesWith fr re =
     threeCubesScene
       \<lparr>objectStore :=
          [Some otherObject,
           Some ((cubeObject 1 (Vector3 0 0 0))\<lparr>m_friction := fr, m_restitution := re\<rparr>),
           Some ((cubeObject 2 (Vector3 10 0 0))\<lparr>m_friction := fr, m_restitution := re\<rparr>),
           Some ((cubeObject 3 (Vector3 0 10 0))\<lparr>m_friction := fr, m_restitution := re\<rparr>)]\<rparr>"

section \<open>Auxiliary facts\<close>

subsection \<open>Conversions to single precision\<close>

lemma binade_numeral:
  "binade (numeral k) x e =
     (if 2 \<le> x \<and> e < 128 then binade (pred_numeral k) (x / 2) (e + 1)
      else if x < 1 \<and> - 126 < e then binade (pred_numeral k) (x * 2) (e - 1)
      else e)"
  by (simp add: numeral_eq_Suc)

lemma pow2_powr: "pow2 e = 2 powr (real_of_int e)"
proof (cases "0 \<le> e")
  case True
  then show ?thesis by (simp add: pow2_def powr_realpow [symmetric])
next
  case False
  then have "real_of_int e = - real (nat (- e))" by simp
  then have "2 powr (real_of_int e) = 1 / 2 ^ nat (- e)"
    by (simp only: powr_minus powr_realpow zero_less_numeral inverse_eq_divide)
  with False show ?thesis by (simp add: pow2_def)
qed

lemma pow2_pos: "0 < pow2 e"
  by (simp add: pow2_powr)

lemma pow2_add: "pow2 (a + b) = pow2 a * pow2 b"
  by (simp add: pow2_powr powr_add)

lemma pow2_numeral: "pow2 (numeral n) = 2 ^ numeral n" "pow2 1 = 2" "pow2 0 = 1"
  by (simp_all add: pow2_def)

lemma pow2_Suc: "pow2 (e + 1) = 2 * pow2 e"
  by (simp add: pow2_add pow2_numeral)

lemma pow2_pred: "pow2 (e - 1) = pow2 e / 2"
  using pow2_Suc [of "e - 1"] by simp

lemma pow2_less: "pow2 a < pow2 b \<longleftrightarrow> a < b"
  by (simp add: pow2_powr)

lemma pow2_nat: "0 \<le> e \<Longrightarrow> pow2 e = of_int (2 ^ nat e)"
  by (simp add: pow2_def)

text \<open>
  The exponent found for a magnitude is not above the magnitude, unless it is the least
  exponent: going up keeps the scaled magnitude at 1 or more, and going down from 0 has
  steps enough to arrive at -126.
\<close>

lemma binade_up: "1 \<le> x \<Longrightarrow> pow2 (binade fuel x e) \<le> x * pow2 e"
proof (induction fuel arbitrary: x e)
  case 0
  then show ?case using pow2_pos [of e] by simp
next
  case (Suc fuel)
  show ?case
  proof (cases "2 \<le> x \<and> e < 128")
    case True
    then have "1 \<le> x / 2" by simp
    from Suc.IH [OF this, of "e + 1"] True show ?thesis by (simp add: pow2_Suc)
  next
    case False
    with Suc.prems show ?thesis using pow2_pos [of e] by auto
  qed
qed

lemma binade_down:
  "0 \<le> x \<Longrightarrow> - 126 \<le> e \<Longrightarrow> e + 126 \<le> int fuel \<Longrightarrow>
   pow2 (binade fuel x e) \<le> x * pow2 e \<or> binade fuel x e = - 126"
proof (induction fuel arbitrary: x e)
  case 0
  then show ?case by simp
next
  case (Suc fuel)
  consider "2 \<le> x \<and> e < 128" | "\<not> (2 \<le> x \<and> e < 128)" "x < 1 \<and> - 126 < e"
    | "\<not> (2 \<le> x \<and> e < 128)" "\<not> (x < 1 \<and> - 126 < e)" by blast
  then show ?case
  proof cases
    case 1
    then have "1 \<le> x / 2" by simp
    from binade_up [OF this, of fuel "e + 1"] 1 show ?thesis by (simp add: pow2_Suc)
  next
    case 2
    from 2 Suc.prems have "0 \<le> x * 2" "- 126 \<le> e - 1" "e - 1 + 126 \<le> int fuel" by simp_all
    from Suc.IH [OF this] 2 show ?thesis by (simp add: pow2_pred)
  next
    case 3
    then have "1 \<le> x \<or> e = - 126" using Suc.prems by auto
    with 3 show ?thesis using pow2_pos [of e] by auto
  qed
qed

lemma roundHalfEven_int: "roundHalfEven (of_int n) = n"
  by (simp add: roundHalfEven_def)

text \<open>A value of single precision is converted to itself.\<close>

lemma narrowToFloat_fixed:
  assumes m: "\<bar>m\<bar> < 2 ^ 24" and lo: "- 149 \<le> k" and hi: "k \<le> 104"
  shows "narrowToFloat (of_int m * pow2 k) = Finite (of_int m * pow2 k)"
proof -
  define r :: real where "r = of_int m * pow2 k"
  define e where "e = binade 254 \<bar>r\<bar> 0"
  define u where "u = pow2 (e - 23)"
  define j where "j = k - (e - 23)"
  have u: "0 < u" by (simp add: u_def pow2_pos)
  have below: "\<bar>r\<bar> < pow2 (k + 24)"
  proof -
    from m have "real_of_int \<bar>m\<bar> < 2 ^ 24" by (metis of_int_less_iff of_int_numeral of_int_power)
    then have "\<bar>real_of_int m\<bar> * pow2 k < 2 ^ 24 * pow2 k"
      using pow2_pos [of k] by simp
    moreover have "pow2 (k + 24) = 2 ^ 24 * pow2 k"
      by (simp add: pow2_add pow2_numeral)
    ultimately show ?thesis using pow2_pos [of k] by (simp add: r_def abs_mult)
  qed
  have "pow2 e \<le> \<bar>r\<bar> * pow2 0 \<or> e = - 126"
    unfolding e_def by (rule binade_down) simp_all
  then have e: "e \<le> k + 23"
  proof
    assume "pow2 e \<le> \<bar>r\<bar> * pow2 0"
    with below have "pow2 e < pow2 (k + 24)" by (simp add: pow2_numeral)
    then show ?thesis by (simp add: pow2_less)
  next
    assume "e = - 126"
    with lo show ?thesis by simp
  qed
  then have j: "0 \<le> j" by (simp add: j_def)
  have "pow2 k = pow2 j * u"
    unfolding j_def u_def by (simp add: pow2_add [symmetric])
  then have "r = of_int m * pow2 j * u" by (simp add: r_def)
  with u j have q: "r / u = of_int (m * 2 ^ nat j)" by (simp add: pow2_nat)
  have v: "of_int (roundHalfEven (r / u)) * u = r"
    unfolding q roundHalfEven_int using q u by (simp add: field_simps)
  from hi have "k + 24 < 129" by simp
  then have "pow2 (k + 24) < pow2 129" by (simp only: pow2_less)
  with below have "\<bar>r\<bar> < pow2 128"
    using pow2_less [of "k + 24" 128] pow2_less [of 128 "k + 24"] hi
    by (cases "k + 24 = 128") (auto simp: less_le)
  then show ?thesis
    unfolding narrowToFloat_def Let_def r_def [symmetric] e_def [symmetric] u_def [symmetric] v
    by simp
qed

lemma toBtScalar_fixed: "singlePrecision d \<Longrightarrow> toBtScalar d = d"
  by (cases d) (auto simp: singlePrecision_def toBtScalar_def narrowToFloat_fixed)

text \<open>
  From the other side: the magnitude is below the next power of two, unless the exponent
  is the greatest one. So the exponent found from 0 in 254 steps is the exponent of the
  binade, within the range of the format.
\<close>

lemma binade_below: "x < 2 \<Longrightarrow> x * pow2 e < pow2 (binade fuel x e + 1)"
proof (induction fuel arbitrary: x e)
  case 0
  then show ?case using pow2_pos [of e] by (simp add: pow2_Suc)
next
  case (Suc fuel)
  show ?case
  proof (cases "x < 1 \<and> - 126 < e")
    case True
    then have "x * 2 < 2" by simp
    from Suc.IH [OF this, of "e - 1"] True Suc.prems show ?thesis by (simp add: pow2_pred)
  next
    case False
    with Suc.prems show ?thesis using pow2_pos [of e] by (auto simp: pow2_Suc)
  qed
qed

lemma binade_above:
  "e \<le> 128 \<Longrightarrow> 128 - e \<le> int fuel \<Longrightarrow>
   x * pow2 e < pow2 (binade fuel x e + 1) \<or> binade fuel x e = 128"
proof (induction fuel arbitrary: x e)
  case 0
  then show ?case by simp
next
  case (Suc fuel)
  consider "2 \<le> x \<and> e < 128" | "\<not> (2 \<le> x \<and> e < 128)" "x < 1 \<and> - 126 < e"
    | "\<not> (2 \<le> x \<and> e < 128)" "\<not> (x < 1 \<and> - 126 < e)" by blast
  then show ?case
  proof cases
    case 1
    with Suc.prems have "e + 1 \<le> 128" "128 - (e + 1) \<le> int fuel" by simp_all
    from Suc.IH [OF this, of "x / 2"] 1 show ?thesis by (simp add: pow2_Suc)
  next
    case 2
    then have "x * 2 < 2" by simp
    from binade_below [OF this, of "e - 1" fuel] 2 show ?thesis by (simp add: pow2_pred)
  next
    case 3
    then have "x < 2 \<or> e = 128" using Suc.prems by auto
    with 3 show ?thesis using pow2_pos [of e] by (auto simp: pow2_Suc)
  qed
qed

lemma binade_range:
  "- 126 \<le> e \<Longrightarrow> e \<le> 128 \<Longrightarrow> - 126 \<le> binade fuel x e \<and> binade fuel x e \<le> 128"
proof (induction fuel arbitrary: x e)
  case 0
  then show ?case by simp
next
  case (Suc fuel)
  then show ?case by simp
qed

lemma binade_exponent:
  assumes "0 \<le> x"
  shows "- 126 \<le> binade 254 x 0 \<and> binade 254 x 0 \<le> 128 \<and>
         (pow2 (binade 254 x 0) \<le> x \<or> binade 254 x 0 = - 126) \<and>
         (x < pow2 (binade 254 x 0 + 1) \<or> binade 254 x 0 = 128)"
proof -
  have "pow2 (binade 254 x 0) \<le> x * pow2 0 \<or> binade 254 x 0 = - 126"
    using assms by (intro binade_down) simp_all
  moreover have "x * pow2 0 < pow2 (binade 254 x 0 + 1) \<or> binade 254 x 0 = 128"
    by (intro binade_above) simp_all
  moreover have "- 126 \<le> binade 254 x 0 \<and> binade 254 x 0 \<le> 128"
    by (intro binade_range) simp_all
  ultimately show ?thesis by (simp add: pow2_numeral)
qed

text \<open>
  A converted value is a value of single precision, and when finite it is away from the
  argument by at most half the spacing of the binade.
\<close>

lemma roundHalfEven_floor:
  "roundHalfEven q = \<lfloor>q\<rfloor> \<or> (roundHalfEven q = \<lfloor>q\<rfloor> + 1 \<and> of_int \<lfloor>q\<rfloor> < q)"
  by (auto simp: roundHalfEven_def Let_def)

lemma roundHalfEven_near: "\<bar>of_int (roundHalfEven q) - q\<bar> \<le> 1 / 2"
proof -
  define d where "d = q - of_int \<lfloor>q\<rfloor>"
  have d: "0 \<le> d" "d < 1" unfolding d_def by linarith+
  have q: "q = of_int \<lfloor>q\<rfloor> + d" by (simp add: d_def)
  consider "d < 1 / 2" | "1 / 2 < d" | "d = 1 / 2" by linarith
  then show ?thesis
  proof cases
    case 1
    then have "roundHalfEven q = \<lfloor>q\<rfloor>" by (simp add: roundHalfEven_def Let_def d_def)
    then have "of_int (roundHalfEven q) - q = - d" by (simp add: d_def)
    with 1 d show ?thesis by simp
  next
    case 2
    then have "roundHalfEven q = \<lfloor>q\<rfloor> + 1" by (simp add: roundHalfEven_def Let_def d_def)
    then have "of_int (roundHalfEven q) - q = 1 - d" by (simp add: d_def)
    with 2 d show ?thesis by simp
  next
    case 3
    then have "roundHalfEven q = \<lfloor>q\<rfloor> \<or> roundHalfEven q = \<lfloor>q\<rfloor> + 1"
      by (simp add: roundHalfEven_def Let_def d_def)
    then have "of_int (roundHalfEven q) - q = - d \<or> of_int (roundHalfEven q) - q = 1 - d"
      by (auto simp: d_def)
    with 3 show ?thesis by auto
  qed
qed

lemma roundHalfEven_bound:
  assumes "\<bar>q\<bar> < of_int N"
  shows "\<bar>roundHalfEven q\<bar> \<le> N"
proof -
  from assms have "- of_int N < q" "q < of_int N" by (simp_all add: abs_less_iff)
  then have "- N \<le> \<lfloor>q\<rfloor>" "\<lfloor>q\<rfloor> < N" by (simp_all add: le_floor_iff floor_less_iff)
  with roundHalfEven_floor [of q] show ?thesis by auto
qed

lemma roundHalfEven_least:
  assumes "of_int N \<le> \<bar>q\<bar>"
  shows "N \<le> \<bar>roundHalfEven q\<bar>"
proof (cases "0 \<le> q")
  case True
  with assms have "N \<le> \<lfloor>q\<rfloor>" by (simp add: le_floor_iff)
  with roundHalfEven_floor [of q] show ?thesis by auto
next
  case False
  with assms have q: "q \<le> of_int (- N)" by simp
  then have "\<lfloor>q\<rfloor> \<le> - N" by (metis floor_mono floor_of_int)
  moreover have "\<lfloor>q\<rfloor> + 1 \<le> - N" if "of_int \<lfloor>q\<rfloor> < q"
  proof -
    from that q have "real_of_int \<lfloor>q\<rfloor> < of_int (- N)" by linarith
    then have "\<lfloor>q\<rfloor> < - N" by (simp only: of_int_less_iff)
    then show ?thesis by simp
  qed
  ultimately show ?thesis using roundHalfEven_floor [of q] by auto
qed

lemma narrowToFloat_single: "singlePrecision (narrowToFloat r)"
proof -
  define e where "e = binade 254 \<bar>r\<bar> 0"
  define u where "u = pow2 (e - 23)"
  define n where "n = roundHalfEven (r / u)"
  have u: "0 < u" by (simp add: u_def pow2_pos)
  have res: "narrowToFloat r =
      (if pow2 128 \<le> \<bar>of_int n * u\<bar> then (if 0 < r then PlusInfinity else MinusInfinity)
       else Finite (of_int n * u))"
    by (simp add: narrowToFloat_def Let_def e_def u_def n_def)
  show ?thesis
  proof (cases "pow2 128 \<le> \<bar>of_int n * u\<bar>")
    case True
    with res show ?thesis by (simp add: singlePrecision_def)
  next
    case False
    then have fin: "\<bar>real_of_int n\<bar> * u < pow2 128" using u by (simp add: abs_mult)
    from binade_exponent [of "\<bar>r\<bar>"]
    have range: "- 126 \<le> e" "e \<le> 128"
      and low: "pow2 e \<le> \<bar>r\<bar> \<or> e = - 126"
      and high: "\<bar>r\<bar> < pow2 (e + 1) \<or> e = 128"
      by (simp_all add: e_def)
    have pe: "pow2 e = 2 ^ 23 * u"
      using pow2_add [of 23 "e - 23"] by (simp add: u_def pow2_numeral)
    have e127: "e \<le> 127"
    proof (rule ccontr)
      assume "\<not> e \<le> 127"
      with range have e: "e = 128" by simp
      with low have "pow2 128 \<le> \<bar>r\<bar>" by simp
      with pe e u have "of_int (2 ^ 23) \<le> \<bar>r / u\<bar>" by (simp add: field_simps)
      then have "2 ^ 23 \<le> \<bar>n\<bar>"
        unfolding n_def by (rule roundHalfEven_least)
      then have "2 ^ 23 \<le> \<bar>real_of_int n\<bar>"
        by (metis of_int_abs of_int_le_iff of_int_numeral of_int_power)
      with u have "2 ^ 23 * u \<le> \<bar>real_of_int n\<bar> * u" by simp
      with pe e fin show False by simp
    qed
    with high have "\<bar>r\<bar> < pow2 (e + 1)" by auto
    also have "pow2 (e + 1) = 2 ^ 24 * u" using pe by (simp add: pow2_Suc)
    finally have "\<bar>r / u\<bar> < of_int (2 ^ 24)" using u by (simp add: field_simps)
    then have n24: "\<bar>n\<bar> \<le> 2 ^ 24" unfolding n_def by (rule roundHalfEven_bound)
    show ?thesis
    proof (cases "\<bar>n\<bar> < 2 ^ 24")
      case True
      with range e127 have "\<bar>n\<bar> < 2 ^ 24 \<and> - 149 \<le> e - 23 \<and> e - 23 \<le> 104 \<and>
          of_int n * u = of_int n * pow2 (e - 23)"
        by (simp add: u_def)
      with res False show ?thesis
        unfolding singlePrecision_def by (simp only: if_False floating.case) blast
    next
      case False
      with n24 have n: "\<bar>n\<bar> = 2 ^ 24" by simp
      then have nr: "\<bar>real_of_int n\<bar> = 2 ^ 24"
        by (metis of_int_abs of_int_numeral of_int_power)
      have e126: "e \<le> 126"
      proof (rule ccontr)
        assume "\<not> e \<le> 126"
        with e127 have e: "e = 127" by simp
        have "pow2 128 = 2 * pow2 127" using pow2_Suc [of 127] by simp
        with pe e have "pow2 128 = 2 ^ 24 * u" by simp
        with fin nr show False by simp
      qed
      define m :: int where "m = (if 0 \<le> n then 2 ^ 23 else - (2 ^ 23))"
      have "pow2 (e - 22) = 2 * u" using pow2_Suc [of "e - 23"] by (simp add: u_def)
      moreover from n have "real_of_int n = 2 * of_int m"
        by (auto simp: m_def abs_if split: if_splits)
      ultimately have "of_int n * u = of_int m * pow2 (e - 22)" by simp
      with range e126 have "\<bar>m\<bar> < 2 ^ 24 \<and> - 149 \<le> e - 22 \<and> e - 22 \<le> 104 \<and>
          of_int n * u = of_int m * pow2 (e - 22)"
        by (simp add: m_def)
      with res \<open>\<not> pow2 128 \<le> \<bar>of_int n * u\<bar>\<close> show ?thesis
        unfolding singlePrecision_def by (simp only: if_False floating.case) blast
    qed
  qed
qed

lemma narrowToFloat_nearest:
  assumes "narrowToFloat r = Finite v"
  shows "\<bar>v - r\<bar> \<le> pow2 (binade 254 \<bar>r\<bar> 0 - 23) / 2"
proof -
  define u where "u = pow2 (binade 254 \<bar>r\<bar> 0 - 23)"
  have u: "0 < u" by (simp add: u_def pow2_pos)
  from assms have "v = of_int (roundHalfEven (r / u)) * u"
    by (simp add: narrowToFloat_def Let_def u_def split: if_splits)
  then have "v - r = (of_int (roundHalfEven (r / u)) - r / u) * u"
    using u by (simp add: field_simps)
  then have "\<bar>v - r\<bar> = \<bar>of_int (roundHalfEven (r / u)) - r / u\<bar> * u"
    using u by (simp add: abs_mult)
  also have "\<dots> \<le> 1 / 2 * u"
    using roundHalfEven_near [of "r / u"] u by (intro mult_right_mono) simp_all
  finally show ?thesis by (simp add: u_def)
qed

lemma toBtScalar_single: "singlePrecision (toBtScalar d)"
proof (cases d)
  case (Finite r)
  then show ?thesis by (simp add: toBtScalar_def narrowToFloat_single)
qed (simp_all add: toBtScalar_def singlePrecision_def)

lemma example_single:
  "singlePrecision (Finite (1 / 4))" "singlePrecision float_0_7" "singlePrecision PlusInfinity"
proof -
  have "\<bar>1 :: int\<bar> < 2 ^ 24 \<and> - 149 \<le> (- 2 :: int) \<and> (- 2 :: int) \<le> 104 \<and>
      (1 / 4 :: real) = of_int 1 * pow2 (- 2)"
    by (simp add: pow2_def)
  then show "singlePrecision (Finite (1 / 4))"
    unfolding singlePrecision_def floating.case by blast
  have "\<bar>11744051 :: int\<bar> < 2 ^ 24 \<and> - 149 \<le> (- 24 :: int) \<and> (- 24 :: int) \<le> 104 \<and>
      (11744051 / 16777216 :: real) = of_int 11744051 * pow2 (- 24)"
    by (simp add: pow2_def)
  then show "singlePrecision float_0_7"
    unfolding singlePrecision_def float_0_7_def floating.case by blast
  show "singlePrecision PlusInfinity"
    by (simp add: singlePrecision_def)
qed

lemma binade_0_7: "binade 254 (3152519739159347 / 4503599627370496) 0 = - 1"
  by (simp add: binade_numeral)

lemma binade_1e40: "binade 254 10000000000000000303786028427003666890752 0 = 128"
  by (simp add: binade_numeral)

lemma example_narrowed:
  "toBtScalar double_0_7 = float_0_7" "toBtScalar double_1e40 = PlusInfinity"
  by (simp_all add: toBtScalar_def narrowToFloat_def double_0_7_def float_0_7_def
      double_1e40_def binade_0_7 binade_1e40 pow2_def roundHalfEven_def)

lemma example_coefficients:
  "toBtScalar (Finite 0) = Finite 0"
  "toBtScalar (Finite (1 / 8)) = Finite (1 / 8)"
  "toBtScalar (Finite (1 / 4)) = Finite (1 / 4)"
  "toBtScalar (Finite (1 / 2)) = Finite (1 / 2)"
  "toBtScalar (Finite (3 / 4)) = Finite (3 / 4)"
  by (simp_all add: toBtScalar_def narrowToFloat_def binade_numeral pow2_def roundHalfEven_def)

subsection \<open>The walk over the hierarchy\<close>

lemma createStaticMesh_fields:
  "arrayStore (createStaticMesh X W mesh st) = arrayStore st @ [Some (arrayOf mesh)]"
  "shapeStore (createStaticMesh X W mesh st) =
     shapeStore st @ [Some (shapeOf X (length (arrayStore st)) W)]"
  "objectStore (createStaticMesh X W mesh st) =
     objectStore st @ [Some (objectOf X (length (shapeStore st)) W)]"
  "bSceneArrays (createStaticMesh X W mesh st) = bSceneArrays st @ [length (arrayStore st)]"
  "bSceneShapes (createStaticMesh X W mesh st) = bSceneShapes st @ [length (shapeStore st)]"
  "bStaticCollisionObjects (createStaticMesh X W mesh st) =
     bStaticCollisionObjects st @ [length (objectStore st)]"
  "bWorld (createStaticMesh X W mesh st) = bWorld st"
  "initializationAttributes (createStaticMesh X W mesh st) = initializationAttributes st"
  by (simp_all add: createStaticMesh_def newArray_def newShape_def newObject_def Let_def)

lemma createAll_Nil: "createAll X mg [] st = st"
  by (simp add: createAll_def)

lemma createAll_Cons:
  "createAll X mg ((W, i) # ns) st = createAll X mg ns (createStaticMesh X W (mg ! nat i) st)"
  by (simp add: createAll_def)

text \<open>The walk succeeds on a hierarchy that fits the mesh group, and creates the shapes of
  the mesh nodes in the order of the walk, each at the world transform of its node.\<close>

lemma construct_createAll:
  "wellIndexed mg node \<Longrightarrow>
     constructBulletSceneFromMeshes X P mg node st = Inr (createAll X mg (meshNodes P node) st)"
  "wellIndexedAll mg nodes \<Longrightarrow>
     constructChildren X P mg nodes st =
       Inr (createAll X mg
              (filter (\<lambda>(W, meshID). meshID \<noteq> ID_UNDEFINED) (worldTransformsOfAll P nodes)) st)"
proof (induction X P mg node st and X P mg nodes st
    rule: constructBulletSceneFromMeshes_constructChildren.induct)
  case (1 X P mg T i cs st)
  then show ?case
    by (auto simp: meshNodes_def createAll_def Let_def)
next
  case (2 X P mg st)
  then show ?case by (simp add: createAll_def)
next
  case (3 X P mg c cs st)
  then show ?case by (simp add: createAll_def meshNodes_def)
qed

lemma count_meshNodes:
  "length (meshNodes P node) = countMeshNodes node"
  "length (filter (\<lambda>(W, meshID). meshID \<noteq> ID_UNDEFINED) (worldTransformsOfAll P nodes)) =
     countMeshNodesOfAll nodes"
  by (induction P node and P nodes rule: worldTransforms_worldTransformsOfAll.induct)
     (simp_all add: meshNodes_def)

lemma createAll_unchanged:
  "bWorld (createAll X mg ns st) = bWorld st"
  "initializationAttributes (createAll X mg ns st) = initializationAttributes st"
  by (induction ns arbitrary: st;
      simp add: createAll_Nil createAll_Cons createStaticMesh_fields split_paired_all)+

lemma createAll_arrayStore:
  "arrayStore (createAll X mg ns st) =
     arrayStore st @ map (\<lambda>(W, i). Some (arrayOf (mg ! nat i))) ns"
  by (induction ns arbitrary: st)
     (simp_all add: createAll_Nil createAll_Cons createStaticMesh_fields split_paired_all)

lemma createAll_shapeStore:
  "shapeStore (createAll X mg ns st) =
     shapeStore st @
     map (\<lambda>(pa, W, i). Some (shapeOf X pa W)) (enumerate (length (arrayStore st)) ns)"
  by (induction ns arbitrary: st)
     (simp_all add: createAll_Nil createAll_Cons createStaticMesh_fields split_paired_all)

lemma createAll_objectStore:
  "objectStore (createAll X mg ns st) =
     objectStore st @
     map (\<lambda>(ps, W, i). Some (objectOf X ps W)) (enumerate (length (shapeStore st)) ns)"
  by (induction ns arbitrary: st)
     (simp_all add: createAll_Nil createAll_Cons createStaticMesh_fields split_paired_all)

lemma createAll_bSceneArrays:
  "bSceneArrays (createAll X mg ns st) =
     bSceneArrays st @ map fst (enumerate (length (arrayStore st)) ns)"
  by (induction ns arbitrary: st)
     (simp_all add: createAll_Nil createAll_Cons createStaticMesh_fields split_paired_all)

lemma createAll_bSceneShapes:
  "bSceneShapes (createAll X mg ns st) =
     bSceneShapes st @ map fst (enumerate (length (shapeStore st)) ns)"
  by (induction ns arbitrary: st)
     (simp_all add: createAll_Nil createAll_Cons createStaticMesh_fields split_paired_all)

lemma createAll_bStaticCollisionObjects:
  "bStaticCollisionObjects (createAll X mg ns st) =
     bStaticCollisionObjects st @ map fst (enumerate (length (objectStore st)) ns)"
  by (induction ns arbitrary: st)
     (simp_all add: createAll_Nil createAll_Cons createStaticMesh_fields split_paired_all)

lemma createAll_nth_pointer:
  assumes "k < length ns"
  shows "bSceneArrays (createAll X mg ns st) ! (length (bSceneArrays st) + k) =
           length (arrayStore st) + k"
    and "bSceneShapes (createAll X mg ns st) ! (length (bSceneShapes st) + k) =
           length (shapeStore st) + k"
    and "bStaticCollisionObjects (createAll X mg ns st) ! (length (bStaticCollisionObjects st) + k) =
           length (objectStore st) + k"
  using assms
  by (simp_all add: createAll_bSceneArrays createAll_bSceneShapes
      createAll_bStaticCollisionObjects nth_enumerate_eq)

lemma createAll_deref:
  assumes "k < length ns"
  shows "derefArray (createAll X mg ns st) (length (arrayStore st) + k) =
           Some (arrayOf (mg ! nat (snd (ns ! k))))"
    and "derefShape (createAll X mg ns st) (length (shapeStore st) + k) =
           Some (shapeOf X (length (arrayStore st) + k) (fst (ns ! k)))"
    and "derefObject (createAll X mg ns st) (length (objectStore st) + k) =
           Some (objectOf X (length (shapeStore st) + k) (fst (ns ! k)))"
  using assms
  by (simp_all add: derefArray_def derefShape_def derefObject_def createAll_arrayStore
      createAll_shapeStore createAll_objectStore nth_enumerate_eq split_beta)

lemma createAll_placements:
  "map (\<lambda>p. map_option m_worldTransform (derefObject (createAll X mg ns st) p))
       (drop (length (bStaticCollisionObjects st))
          (bStaticCollisionObjects (createAll X mg ns st))) =
   map (\<lambda>(W, i). Some \<lparr>basis = rotation X W, origin = translation X W\<rparr>) ns"
proof (rule nth_equalityI)
  show "length (map (\<lambda>p. map_option m_worldTransform (derefObject (createAll X mg ns st) p))
       (drop (length (bStaticCollisionObjects st))
          (bStaticCollisionObjects (createAll X mg ns st)))) =
     length (map (\<lambda>(W, i). Some \<lparr>basis = rotation X W, origin = translation X W\<rparr>) ns)"
    by (simp add: createAll_bStaticCollisionObjects)
next
  fix k
  assume "k < length (map (\<lambda>p. map_option m_worldTransform (derefObject (createAll X mg ns st) p))
       (drop (length (bStaticCollisionObjects st))
          (bStaticCollisionObjects (createAll X mg ns st))))"
  then have k: "k < length ns"
    by (simp add: createAll_bStaticCollisionObjects)
  then show "map (\<lambda>p. map_option m_worldTransform (derefObject (createAll X mg ns st) p))
       (drop (length (bStaticCollisionObjects st))
          (bStaticCollisionObjects (createAll X mg ns st))) ! k =
     map (\<lambda>(W, i). Some \<lparr>basis = rotation X W, origin = translation X W\<rparr>) ns ! k"
    using createAll_deref(3) [OF k, of X mg st]
    by (simp add: createAll_bStaticCollisionObjects nth_enumerate_eq split_beta)
qed

subsection \<open>Facts about the concrete assets\<close>

lemma example_product:
  "translationMatrix 10 0 0 * translationMatrix 0 10 0 = translationMatrix 10 10 0"
  by (simp add: translationMatrix_def times_Matrix4_def mulv_def add4_def scale4_def)

lemma example_rotation:
  "rotation exampleExternals 1 = unitBasis"
  "rotation exampleExternals (translationMatrix a b c) = unitBasis"
  by (simp_all add: exampleExternals_def one_Matrix4_def translationMatrix_def normalized3_def
      length3_def unitBasis_def)

lemma example_scaling:
  "scaling exampleExternals 1 = Vector3 1 1 1"
  "scaling exampleExternals (translationMatrix a b c) = Vector3 1 1 1"
  by (simp_all add: exampleExternals_def one_Matrix4_def translationMatrix_def length3_def)

lemma example_translation:
  "translation exampleExternals 1 = Vector3 0 0 0"
  "translation exampleExternals (translationMatrix a b c) = Vector3 a b c"
  by (simp_all add: exampleExternals_def one_Matrix4_def translationMatrix_def)

lemma example_newCollisionObject:
  "newCollisionObject exampleExternals =
     \<lparr>m_collisionShape = None,
      m_worldTransform = \<lparr>basis = unitBasis, origin = Vector3 0 0 0\<rparr>,
      m_friction = Finite (1 / 2), m_restitution = Finite 0\<rparr>"
  by (simp add: exampleExternals_def)

lemma example_array:
  "addIndexedMesh (configureBulletMesh exampleMesh) PHY_INTEGER \<lparr>m_indexedMeshes = []\<rparr> = cubeArray"
  by (simp add: addIndexedMesh_def configureBulletMesh_def exampleMesh_def cubeArray_def
      sizeof_UnsignedInt_def sizeof_Vector3_def)

lemma example_initialization:
  "initialization_LibSpecific exampleExternals exampleManager freshScene = Inr (True, threeCubesScene)"
  by (simp add: initialization_LibSpecific_def getCollisionMesh_def getMeshMetaData_def
      exampleManager_def freshScene_def threeCubes_def threeCubesScene_def ID_UNDEFINED_def
      createStaticMesh_def newArray_def newShape_def newObject_def example_array
      example_rotation example_scaling example_translation example_newCollisionObject
      registerObject_def updateObject_def derefObject_def addCollisionObject_def cubeObject_def
      cubeShape_def example_coefficients Let_def)

lemma example_wellIndexed:
  "wellIndexed [exampleMesh] exampleNode" "wellIndexed [exampleMesh] twoLevels"
  "wellIndexed [exampleMesh] threeCubes" "wellIndexed [exampleMesh] scaledTurnedNode"
  by (simp_all add: exampleNode_def twoLevels_def threeCubes_def scaledTurnedNode_def
      ID_UNDEFINED_def)

lemma fresh_facts:
  "bSceneArrays freshScene = []" "bSceneShapes freshScene = []"
  "bStaticCollisionObjects freshScene = []"
  "list_all (\<lambda>q. q < length (objectStore freshScene)) (bWorld freshScene)"
  "collisionAssetHandle (initializationAttributes freshScene) = ''cubes.glb''"
  "ownsLiveObjects freshScene"
  by (simp_all add: freshScene_def ownsLiveObjects_def)

lemma manager_facts:
  "collisionMeshGroups exampleManager ''cubes.glb'' = Some [exampleMesh]"
  "resourceDict exampleManager ''cubes.glb'' = Some \<lparr>meshMetaData = \<lparr>root_node = threeCubes\<rparr>\<rparr>"
  by (simp_all add: exampleManager_def)

lemma threeCubes_owned: "ownsLiveObjects threeCubesScene"
  by (simp add: ownsLiveObjects_def threeCubesScene_def derefObject_def derefShape_def
      cubeObject_def)

subsection \<open>Writes through the object pointers\<close>

lemma derefObject_Some:
  "derefObject st p = Some ob \<longleftrightarrow> p < length (objectStore st) \<and> objectStore st ! p = Some ob"
  by (simp add: derefObject_def)

lemma derefObject_bWorld: "derefObject (s\<lparr>bWorld := w\<rparr>) q = derefObject s q"
  by (simp add: derefObject_def)

lemma updateObject_live:
  "derefObject st p = Some ob \<Longrightarrow>
     updateObject p g st =
       Inr (st\<lparr>objectStore := (objectStore st)[p := map_option g (objectStore st ! p)]\<rparr>)"
  by (simp add: updateObject_def) (simp add: derefObject_Some)

lemma live_after_update:
  "derefObject st q \<noteq> None \<Longrightarrow>
     derefObject (st\<lparr>objectStore := (objectStore st)[p := map_option g (objectStore st ! p)]\<rparr>) q
       \<noteq> None"
  by (cases "q = p") (auto simp: derefObject_def split: if_splits)

lemma forEach_updateObject:
  "\<forall>p \<in> set ps. derefObject st p \<noteq> None \<Longrightarrow>
     forEach (\<lambda>p. updateObject p g) ps st =
       Inr (st\<lparr>objectStore := fold (\<lambda>p s. s[p := map_option g (s ! p)]) ps (objectStore st)\<rparr>)"
proof (induction ps arbitrary: st)
  case Nil
  then show ?case by simp
next
  case (Cons p ps)
  let ?st1 = "st\<lparr>objectStore := (objectStore st)[p := map_option g (objectStore st ! p)]\<rparr>"
  from Cons.prems obtain ob where "derefObject st p = Some ob" by auto
  then have "updateObject p g st = Inr ?st1" by (rule updateObject_live)
  moreover from Cons.prems have "\<forall>q \<in> set ps. derefObject ?st1 q \<noteq> None"
    by (simp add: live_after_update)
  then have "forEach (\<lambda>p. updateObject p g) ps ?st1 =
      Inr (?st1\<lparr>objectStore := fold (\<lambda>p s. s[p := map_option g (s ! p)]) ps (objectStore ?st1)\<rparr>)"
    by (rule Cons.IH)
  ultimately show ?case by simp
qed

lemma fold_update_length:
  "length (fold (\<lambda>p s. s[p := map_option g (s ! p)]) ps store) = length store"
  by (induction ps arbitrary: store) simp_all

lemma fold_update_nth:
  assumes "\<And>ob. g (g ob) = g ob" and "q < length store"
  shows "fold (\<lambda>p s. s[p := map_option g (s ! p)]) ps store ! q =
           (if q \<in> set ps then map_option g (store ! q) else store ! q)"
  using assms(2)
proof (induction ps arbitrary: store)
  case Nil
  then show ?case by simp
next
  case (Cons p ps)
  let ?store1 = "store[p := map_option g (store ! p)]"
  from Cons.prems have q: "q < length ?store1" by simp
  have here: "?store1 ! q = (if q = p then map_option g (store ! q) else store ! q)"
    using Cons.prems by (simp add: nth_list_update)
  have idem: "map_option g (map_option g c) = map_option g c" for c
    by (cases c) (simp_all add: assms(1))
  have "fold (\<lambda>p s. s[p := map_option g (s ! p)]) (p # ps) store ! q =
      fold (\<lambda>p s. s[p := map_option g (s ! p)]) ps ?store1 ! q"
    by simp
  also have "\<dots> = (if q \<in> set ps then map_option g (?store1 ! q) else ?store1 ! q)"
    using q by (rule Cons.IH)
  also have "\<dots> = (if q \<in> set (p # ps) then map_option g (store ! q) else store ! q)"
    using here by (auto simp: idem)
  finally show ?case .
qed

lemma derefObject_after_updates:
  assumes "\<And>ob. g (g ob) = g ob"
  shows "derefObject
           (st\<lparr>objectStore := fold (\<lambda>p s. s[p := map_option g (s ! p)]) ps (objectStore st)\<rparr>) q =
         (if q \<in> set ps then map_option g (derefObject st q) else derefObject st q)"
  using assms by (simp add: derefObject_def fold_update_length fold_update_nth)

lemma owners_live:
  "ownsLiveObjects st \<Longrightarrow> \<forall>p \<in> set (bStaticCollisionObjects st). derefObject st p \<noteq> None"
  by (auto simp: ownsLiveObjects_def list_all_iff split: option.splits)


subsection \<open>The loop of the initialization\<close>

lemma registerObject_live:
  assumes "derefObject st p = Some ob"
  shows "registerObject p st =
           Inr (st\<lparr>objectStore :=
                     (objectStore st)[p := map_option (withCoefficients st) (objectStore st ! p)],
                   bWorld := bWorld st @ [p]\<rparr>)"
proof -
  let ?f = "\<lambda>ob. ob\<lparr>m_friction := toBtScalar (frictionCoefficient (initializationAttributes st))\<rparr>"
  let ?st1 = "st\<lparr>objectStore := (objectStore st)[p := Some (?f ob)]\<rparr>"
  from assms have p: "p < length (objectStore st)" "objectStore st ! p = Some ob"
    by (simp_all add: derefObject_Some)
  from assms have first: "updateObject p ?f st = Inr ?st1"
    by (simp add: updateObject_def)
  from p have "derefObject ?st1 p = Some (?f ob)"
    by (simp add: derefObject_def)
  then have second: "updateObject p
      (\<lambda>ob. ob\<lparr>m_restitution :=
               toBtScalar (restitutionCoefficient (initializationAttributes ?st1))\<rparr>) ?st1 =
      Inr (?st1\<lparr>objectStore := (objectStore ?st1)[p := Some (withCoefficients st ob)]\<rparr>)"
    by (simp add: updateObject_def)
  from first second p show ?thesis
    by (simp add: registerObject_def addCollisionObject_def)
qed

lemma register_loop:
  "\<forall>p \<in> set ps. derefObject st p \<noteq> None \<Longrightarrow>
     forEach registerObject ps st =
       Inr (st\<lparr>objectStore :=
                 fold (\<lambda>p s. s[p := map_option (withCoefficients st) (s ! p)]) ps (objectStore st),
               bWorld := bWorld st @ ps\<rparr>)"
proof (induction ps arbitrary: st)
  case Nil
  then show ?case by simp
next
  case (Cons p ps)
  let ?st1 = "st\<lparr>objectStore :=
      (objectStore st)[p := map_option (withCoefficients st) (objectStore st ! p)]\<rparr>"
  let ?st2 = "?st1\<lparr>bWorld := bWorld st @ [p]\<rparr>"
  from Cons.prems obtain ob where ob: "derefObject st p = Some ob" by auto
  have step: "registerObject p st = Inr ?st2"
    using ob by (rule registerObject_live [unfolded Let_def])
  from Cons.prems have "\<forall>q \<in> set ps. derefObject ?st1 q \<noteq> None"
    by (simp add: live_after_update)
  then have "\<forall>q \<in> set ps. derefObject ?st2 q \<noteq> None"
    by (simp only: derefObject_bWorld)
  then have "forEach registerObject ps ?st2 =
      Inr (?st2\<lparr>objectStore :=
                 fold (\<lambda>p s. s[p := map_option (withCoefficients ?st2) (s ! p)]) ps (objectStore ?st2),
               bWorld := bWorld ?st2 @ ps\<rparr>)"
    by (rule Cons.IH)
  with step show ?case by simp
qed

lemma live_createAll:
  assumes "\<forall>p \<in> set (bStaticCollisionObjects st). derefObject st p \<noteq> None"
  shows "\<forall>p \<in> set (bStaticCollisionObjects (createAll X mg ns st)).
           derefObject (createAll X mg ns st) p \<noteq> None"
proof
  fix p assume "p \<in> set (bStaticCollisionObjects (createAll X mg ns st))"
  then consider "p \<in> set (bStaticCollisionObjects st)"
    | k where "k < length ns" "p = length (objectStore st) + k"
    by (auto simp: createAll_bStaticCollisionObjects map_fst_enumerate)
       (metis add_diff_inverse_nat not_less)
  then show "derefObject (createAll X mg ns st) p \<noteq> None"
  proof cases
    case 1
    with assms have "derefObject st p \<noteq> None" by simp
    then show ?thesis
      by (auto simp: derefObject_def createAll_objectStore nth_append split: if_splits)
  next
    case 2
    then show ?thesis by (simp add: createAll_deref)
  qed
qed

lemma count_list_upt: "count_list [n..<m] p = (if n \<le> p \<and> p < m then 1 else 0)"
  by (induction m) auto

lemma count_list_absent: "p \<notin> set w \<Longrightarrow> count_list w p = 0"
  by (simp add: count_list_0_iff)

lemma initialization_createAll:
  assumes "collisionMeshGroups resMgr (collisionAssetHandle (initializationAttributes st)) = Some mg"
    and "resourceDict resMgr (collisionAssetHandle (initializationAttributes st)) = Some loaded"
    and "wellIndexed mg (root_node (meshMetaData loaded))"
    and "\<forall>p \<in> set (bStaticCollisionObjects st). derefObject st p \<noteq> None"
    and "st1 = createAll X mg (meshNodes 1 (root_node (meshMetaData loaded))) st"
  shows "initialization_LibSpecific X resMgr st =
           Inr (True,
                st1\<lparr>objectStore :=
                       fold (\<lambda>p s. s[p := map_option (withCoefficients st1) (s ! p)])
                         (bStaticCollisionObjects st1) (objectStore st1),
                     bWorld := bWorld st1 @ bStaticCollisionObjects st1\<rparr>)"
proof -
  from assms(3,5) have c: "constructBulletSceneFromMeshes X 1 mg (root_node (meshMetaData loaded)) st =
      Inr st1"
    by (simp add: construct_createAll(1))
  from assms(4,5) have "\<forall>p \<in> set (bStaticCollisionObjects st1). derefObject st1 p \<noteq> None"
    by (simp add: live_createAll)
  then have "forEach registerObject (bStaticCollisionObjects st1) st1 =
      Inr (st1\<lparr>objectStore :=
                 fold (\<lambda>p s. s[p := map_option (withCoefficients st1) (s ! p)])
                   (bStaticCollisionObjects st1) (objectStore st1),
               bWorld := bWorld st1 @ bStaticCollisionObjects st1\<rparr>)"
    by (rule register_loop)
  with assms(1,2) c show ?thesis
    by (simp add: initialization_LibSpecific_def getCollisionMesh_def getMeshMetaData_def)
qed

lemma placements_after_registration:
  "map (\<lambda>p. map_option m_worldTransform
          (derefObject
             (st1\<lparr>objectStore :=
                    fold (\<lambda>p s. s[p := map_option (withCoefficients st1) (s ! p)]) ps (objectStore st1),
                  bWorld := w\<rparr>) p)) ps =
   map (\<lambda>p. map_option m_worldTransform (derefObject st1 p)) ps"
proof (rule map_cong [OF refl])
  fix p assume "p \<in> set ps"
  have "derefObject
      (st1\<lparr>objectStore :=
             fold (\<lambda>p s. s[p := map_option (withCoefficients st1) (s ! p)]) ps (objectStore st1),
           bWorld := w\<rparr>) p =
      (if p \<in> set ps then map_option (withCoefficients st1) (derefObject st1 p)
       else derefObject st1 p)"
    by (simp only: derefObject_bWorld) (rule derefObject_after_updates, simp)
  with \<open>p \<in> set ps\<close> show "map_option m_worldTransform
      (derefObject
        (st1\<lparr>objectStore :=
               fold (\<lambda>p s. s[p := map_option (withCoefficients st1) (s ! p)]) ps (objectStore st1),
             bWorld := w\<rparr>) p) =
      map_option m_worldTransform (derefObject st1 p)"
    by (cases "derefObject st1 p") simp_all
qed

lemma initialization_fresh:
  assumes "bStaticCollisionObjects st = []"
    and "collisionMeshGroups resMgr (collisionAssetHandle (initializationAttributes st)) = Some mg"
    and "resourceDict resMgr (collisionAssetHandle (initializationAttributes st)) = Some loaded"
    and "wellIndexed mg (root_node (meshMetaData loaded))"
  shows "\<exists>st2. initialization_LibSpecific X resMgr st = Inr (True, st2) \<and>
           bStaticCollisionObjects st2 =
             [length (objectStore st)..<
              length (objectStore st) + countMeshNodes (root_node (meshMetaData loaded))] \<and>
           bWorld st2 = bWorld st @ bStaticCollisionObjects st2"
proof -
  let ?ns = "meshNodes 1 (root_node (meshMetaData loaded))"
  let ?st1 = "createAll X mg ?ns st"
  let ?st2 = "?st1\<lparr>objectStore :=
                 fold (\<lambda>p s. s[p := map_option (withCoefficients ?st1) (s ! p)])
                   (bStaticCollisionObjects ?st1) (objectStore ?st1),
               bWorld := bWorld ?st1 @ bStaticCollisionObjects ?st1\<rparr>"
  from assms have "initialization_LibSpecific X resMgr st = Inr (True, ?st2)"
    by (intro initialization_createAll [where mg = mg and loaded = loaded]) simp_all
  moreover from assms(1) have "bStaticCollisionObjects ?st2 =
      [length (objectStore st)..<
       length (objectStore st) + countMeshNodes (root_node (meshMetaData loaded))]"
    by (simp add: createAll_bStaticCollisionObjects map_fst_enumerate count_meshNodes)
  moreover have "bWorld ?st2 = bWorld st @ bStaticCollisionObjects ?st2"
    by (simp add: createAll_unchanged)
  ultimately show ?thesis by blast
qed

section \<open>The collision builder\<close>

subsection \<open>Accumulated world transforms\<close>

text \<open>
  Claim C1. On every hierarchy (that fits its mesh group) and from every initial transform,
  the walk succeeds and places the collision objects it creates, in the order of the walk,
  by the world transforms of the mesh nodes, where the world transform of a node is the
  world transform of its parent times the node's own local transform. Started from the
  identity on a root with local transform \<open>T1\<close> and one child with local transform \<open>T2\<close>,
  the root's object is placed by \<open>T1\<close> and the child's by \<open>T1 * T2\<close>. The initialization
  of a scene starts the walk at the root of the asset from the identity: the objects of the
  scene are placed by the world transforms counted from the identity.
\<close>

theorem world_transform_is_parent_times_local:
  "(wellIndexed meshGroup node \<longrightarrow>
      (\<exists>st'. constructBulletSceneFromMeshes X parentToWorld meshGroup node st = Inr st' \<and>
         map (\<lambda>p. map_option m_worldTransform (derefObject st' p))
             (drop (length (bStaticCollisionObjects st)) (bStaticCollisionObjects st')) =
         map (\<lambda>(W, meshID). Some \<lparr>basis = rotation X W, origin = translation X W\<rparr>)
             (meshNodes parentToWorld node))) \<and>
   (wellIndexed meshGroup (MeshTransformNode T1 m1 [MeshTransformNode T2 m2 []]) \<and>
    m1 \<noteq> ID_UNDEFINED \<and> m2 \<noteq> ID_UNDEFINED \<longrightarrow>
      (\<exists>st'. constructBulletSceneFromMeshes X 1 meshGroup
                (MeshTransformNode T1 m1 [MeshTransformNode T2 m2 []]) st = Inr st' \<and>
         map (\<lambda>p. map_option m_worldTransform (derefObject st' p))
             (drop (length (bStaticCollisionObjects st)) (bStaticCollisionObjects st')) =
         [Some \<lparr>basis = rotation X T1, origin = translation X T1\<rparr>,
          Some \<lparr>basis = rotation X (T1 * T2), origin = translation X (T1 * T2)\<rparr>])) \<and>
   (bStaticCollisionObjects st = [] \<and>
    collisionMeshGroups resMgr (collisionAssetHandle (initializationAttributes st)) = Some meshGroup \<and>
    resourceDict resMgr (collisionAssetHandle (initializationAttributes st)) = Some loaded \<and>
    wellIndexed meshGroup (root_node (meshMetaData loaded)) \<longrightarrow>
      (\<exists>st2. initialization_LibSpecific X resMgr st = Inr (True, st2) \<and>
         map (\<lambda>p. map_option m_worldTransform (derefObject st2 p)) (bStaticCollisionObjects st2) =
         map (\<lambda>(W, meshID). Some \<lparr>basis = rotation X W, origin = translation X W\<rparr>)
             (meshNodes 1 (root_node (meshMetaData loaded)))))"
proof (intro conjI impI)
  assume "wellIndexed meshGroup node"
  then show "\<exists>st'. constructBulletSceneFromMeshes X parentToWorld meshGroup node st = Inr st' \<and>
         map (\<lambda>p. map_option m_worldTransform (derefObject st' p))
             (drop (length (bStaticCollisionObjects st)) (bStaticCollisionObjects st')) =
         map (\<lambda>(W, meshID). Some \<lparr>basis = rotation X W, origin = translation X W\<rparr>)
             (meshNodes parentToWorld node)"
    by (simp add: construct_createAll(1) createAll_placements)
next
  let ?tree = "MeshTransformNode T1 m1 [MeshTransformNode T2 m2 []]"
  assume a: "wellIndexed meshGroup ?tree \<and> m1 \<noteq> ID_UNDEFINED \<and> m2 \<noteq> ID_UNDEFINED"
  then have "meshNodes 1 ?tree = [(T1, m1), (T1 * T2, m2)]"
    by (simp add: meshNodes_def)
  moreover from a have "constructBulletSceneFromMeshes X 1 meshGroup ?tree st =
      Inr (createAll X meshGroup (meshNodes 1 ?tree) st)"
    by (intro construct_createAll(1)) (rule conjunct1)
  moreover have "map (\<lambda>p. map_option m_worldTransform
        (derefObject (createAll X meshGroup [(T1, m1), (T1 * T2, m2)] st) p))
      (drop (length (bStaticCollisionObjects st))
        (bStaticCollisionObjects (createAll X meshGroup [(T1, m1), (T1 * T2, m2)] st))) =
      [Some \<lparr>basis = rotation X T1, origin = translation X T1\<rparr>,
       Some \<lparr>basis = rotation X (T1 * T2), origin = translation X (T1 * T2)\<rparr>]"
    by (simp only: createAll_placements) simp
  ultimately show "\<exists>st'. constructBulletSceneFromMeshes X 1 meshGroup ?tree st = Inr st' \<and>
         map (\<lambda>p. map_option m_worldTransform (derefObject st' p))
             (drop (length (bStaticCollisionObjects st)) (bStaticCollisionObjects st')) =
         [Some \<lparr>basis = rotation X T1, origin = translation X T1\<rparr>,
          Some \<lparr>basis = rotation X (T1 * T2), origin = translation X (T1 * T2)\<rparr>]"
    by (simp only: sum.inject simp_thms ex_simps)
next
  let ?root = "root_node (meshMetaData loaded)"
  let ?st1 = "createAll X meshGroup (meshNodes 1 ?root) st"
  let ?ps = "bStaticCollisionObjects ?st1"
  let ?st2 = "?st1\<lparr>objectStore :=
                 fold (\<lambda>p s. s[p := map_option (withCoefficients ?st1) (s ! p)]) ?ps (objectStore ?st1),
               bWorld := bWorld ?st1 @ ?ps\<rparr>"
  assume a: "bStaticCollisionObjects st = [] \<and>
    collisionMeshGroups resMgr (collisionAssetHandle (initializationAttributes st)) = Some meshGroup \<and>
    resourceDict resMgr (collisionAssetHandle (initializationAttributes st)) = Some loaded \<and>
    wellIndexed meshGroup ?root"
  then have "initialization_LibSpecific X resMgr st = Inr (True, ?st2)"
    by (intro initialization_createAll [where mg = meshGroup and loaded = loaded]) simp_all
  moreover have "map (\<lambda>p. map_option m_worldTransform (derefObject ?st2 p)) ?ps =
      map (\<lambda>p. map_option m_worldTransform (derefObject ?st1 p)) ?ps"
    by (rule placements_after_registration)
  moreover from a have "map (\<lambda>p. map_option m_worldTransform (derefObject ?st1 p)) ?ps =
      map (\<lambda>(W, meshID). Some \<lparr>basis = rotation X W, origin = translation X W\<rparr>)
        (meshNodes 1 ?root)"
    using createAll_placements [of X meshGroup "meshNodes 1 ?root" st] by simp
  moreover have "bStaticCollisionObjects ?st2 = ?ps" by simp
  ultimately show "\<exists>st2. initialization_LibSpecific X resMgr st = Inr (True, st2) \<and>
         map (\<lambda>p. map_option m_worldTransform (derefObject st2 p)) (bStaticCollisionObjects st2) =
         map (\<lambda>(W, meshID). Some \<lparr>basis = rotation X W, origin = translation X W\<rparr>)
             (meshNodes 1 ?root)"
    by (intro exI [of _ ?st2]) (simp only: simp_thms)
qed

text \<open>A root moved by (10,0,0) with a child moved by (0,10,0): the child's object sits at
  (10,10,0).\<close>

theorem world_transform_is_parent_times_local_witness:
  "wellIndexed [exampleMesh] twoLevels \<and>
   (\<exists>st'. constructBulletSceneFromMeshes exampleExternals 1 [exampleMesh] twoLevels freshScene =
            Inr st' \<and>
      map (\<lambda>p. map_option m_worldTransform (derefObject st' p))
          (drop (length (bStaticCollisionObjects freshScene)) (bStaticCollisionObjects st')) =
      [Some \<lparr>basis = unitBasis, origin = Vector3 10 0 0\<rparr>,
       Some \<lparr>basis = unitBasis, origin = Vector3 10 10 0\<rparr>]) \<and>
   bStaticCollisionObjects freshScene = [] \<and>
   collisionMeshGroups exampleManager (collisionAssetHandle (initializationAttributes freshScene)) =
     Some [exampleMesh] \<and>
   resourceDict exampleManager (collisionAssetHandle (initializationAttributes freshScene)) =
     Some \<lparr>meshMetaData = \<lparr>root_node = threeCubes\<rparr>\<rparr> \<and>
   wellIndexed [exampleMesh] threeCubes \<and>
   initialization_LibSpecific exampleExternals exampleManager freshScene =
     Inr (True, threeCubesScene) \<and>
   map (\<lambda>p. map_option m_worldTransform (derefObject threeCubesScene p))
       (bStaticCollisionObjects threeCubesScene) =
     [Some \<lparr>basis = unitBasis, origin = Vector3 0 0 0\<rparr>,
      Some \<lparr>basis = unitBasis, origin = Vector3 10 0 0\<rparr>,
      Some \<lparr>basis = unitBasis, origin = Vector3 0 10 0\<rparr>]"
proof -
  have placed: "map (\<lambda>p. map_option m_worldTransform (derefObject threeCubesScene p))
       (bStaticCollisionObjects threeCubesScene) =
     [Some \<lparr>basis = unitBasis, origin = Vector3 0 0 0\<rparr>,
      Some \<lparr>basis = unitBasis, origin = Vector3 10 0 0\<rparr>,
      Some \<lparr>basis = unitBasis, origin = Vector3 0 10 0\<rparr>]"
    by (simp add: threeCubesScene_def derefObject_def cubeObject_def)
  from example_wellIndexed(2,3) fresh_facts(3,5) manager_facts example_initialization placed
    world_transform_is_parent_times_local
      [of "[exampleMesh]" twoLevels exampleExternals 1 freshScene
          "translationMatrix 10 0 0" 0 "translationMatrix 0 10 0" 0 exampleManager
          "\<lparr>meshMetaData = \<lparr>root_node = threeCubes\<rparr>\<rparr>"]
  show ?thesis
    unfolding twoLevels_def [symmetric]
    by (simp add: example_product example_rotation example_translation ID_UNDEFINED_def
        del: wellIndexed.simps)
qed

subsection \<open>Scale on the shape, rotation and translation on the object\<close>

text \<open>
  Claim C3. Let \<open>W\<close> be the accumulated world transform of a mesh node (the \<open>k\<close>-th one of
  the walk of a hierarchy that fits its mesh group), with scaling \<open>S\<close>, rotation \<open>R\<close> and
  translation \<open>t\<close>. Then the collision
  object created for the node is placed by \<open>R\<close> and \<open>t\<close> alone, and its shape, the shape
  created for the node, has local scaling \<open>S\<close>.
\<close>

theorem scaling_on_shape_placement_on_object:
  assumes "wellIndexed meshGroup node"
    and "k < length (meshNodes parentToWorld node)"
    and "fst (meshNodes parentToWorld node ! k) = W"
    and "scaling X W = S" and "rotation X W = R" and "translation X W = t"
  shows "\<exists>st' ob ps shape.
           constructBulletSceneFromMeshes X parentToWorld meshGroup node st = Inr st' \<and>
           derefObject st' (bStaticCollisionObjects st' ! (length (bStaticCollisionObjects st) + k)) =
             Some ob \<and>
           m_worldTransform ob = \<lparr>basis = R, origin = t\<rparr> \<and>
           m_collisionShape ob = Some ps \<and>
           ps = bSceneShapes st' ! (length (bSceneShapes st) + k) \<and>
           derefShape st' ps = Some shape \<and>
           m_localScaling shape = S"
proof -
  let ?ns = "meshNodes parentToWorld node"
  let ?st' = "createAll X meshGroup ?ns st"
  have "constructBulletSceneFromMeshes X parentToWorld meshGroup node st = Inr ?st'"
    using assms(1) by (rule construct_createAll(1))
  moreover have "derefObject ?st' (bStaticCollisionObjects ?st' ! (length (bStaticCollisionObjects st) + k)) =
      Some (objectOf X (length (shapeStore st) + k) W)"
    using assms(2,3) by (simp add: createAll_nth_pointer createAll_deref)
  moreover have "bSceneShapes ?st' ! (length (bSceneShapes st) + k) = length (shapeStore st) + k"
    using assms(2) by (simp add: createAll_nth_pointer)
  moreover have "derefShape ?st' (length (shapeStore st) + k) =
      Some (shapeOf X (length (arrayStore st) + k) W)"
    using assms(2,3) by (simp add: createAll_deref)
  ultimately show ?thesis
    using assms(4-6) by simp
qed

lemma scaledTurned_matrix:
  "translationMatrix 5 6 7 * quarterTurnZ * scalingMatrix 2 3 4 =
     Matrix4 (Vector4 0 2 0 0) (Vector4 (- 3) 0 0 0) (Vector4 0 0 4 0) (Vector4 5 6 7 1)"
  by (simp add: translationMatrix_def quarterTurnZ_def scalingMatrix_def times_Matrix4_def
      mulv_def add4_def scale4_def)

lemma scaledTurned_parts:
  "scaling exampleExternals (translationMatrix 5 6 7 * quarterTurnZ * scalingMatrix 2 3 4) =
     Vector3 2 3 4"
  "rotation exampleExternals (translationMatrix 5 6 7 * quarterTurnZ * scalingMatrix 2 3 4) =
     quarterTurnBasis"
  "translation exampleExternals (translationMatrix 5 6 7 * quarterTurnZ * scalingMatrix 2 3 4) =
     Vector3 5 6 7"
  by (simp_all add: scaledTurned_matrix exampleExternals_def length3_def normalized3_def
      quarterTurnBasis_def)

lemma scaledTurned_meshNodes:
  "meshNodes 1 scaledTurnedNode =
     [(translationMatrix 5 6 7 * quarterTurnZ * scalingMatrix 2 3 4, 0)]"
  by (simp add: meshNodes_def scaledTurnedNode_def ID_UNDEFINED_def)

text \<open>A node moved by (5,6,7), turned a quarter about the z axis and scaled by (2,3,4).\<close>

theorem scaling_on_shape_placement_on_object_witness:
  "wellIndexed [exampleMesh] scaledTurnedNode \<and>
   0 < length (meshNodes 1 scaledTurnedNode) \<and>
   fst (meshNodes 1 scaledTurnedNode ! 0) =
     translationMatrix 5 6 7 * quarterTurnZ * scalingMatrix 2 3 4 \<and>
   scaling exampleExternals (translationMatrix 5 6 7 * quarterTurnZ * scalingMatrix 2 3 4) =
     Vector3 2 3 4 \<and>
   rotation exampleExternals (translationMatrix 5 6 7 * quarterTurnZ * scalingMatrix 2 3 4) =
     quarterTurnBasis \<and>
   translation exampleExternals (translationMatrix 5 6 7 * quarterTurnZ * scalingMatrix 2 3 4) =
     Vector3 5 6 7 \<and>
   (\<exists>st' ob ps shape.
      constructBulletSceneFromMeshes exampleExternals 1 [exampleMesh] scaledTurnedNode freshScene =
        Inr st' \<and>
      derefObject st' (bStaticCollisionObjects st' ! (length (bStaticCollisionObjects freshScene) + 0)) =
        Some ob \<and>
      m_worldTransform ob = \<lparr>basis = quarterTurnBasis, origin = Vector3 5 6 7\<rparr> \<and>
      m_collisionShape ob = Some ps \<and>
      ps = bSceneShapes st' ! (length (bSceneShapes freshScene) + 0) \<and>
      derefShape st' ps = Some shape \<and>
      m_localScaling shape = Vector3 2 3 4)"
proof -
  have k: "0 < length (meshNodes 1 scaledTurnedNode)"
    and w: "fst (meshNodes 1 scaledTurnedNode ! 0) =
      translationMatrix 5 6 7 * quarterTurnZ * scalingMatrix 2 3 4"
    by (simp_all add: scaledTurned_meshNodes)
  from scaling_on_shape_placement_on_object
    [OF example_wellIndexed(4) k w scaledTurned_parts, of freshScene]
    example_wellIndexed(4) k w scaledTurned_parts
  show ?thesis by (simp only: simp_thms)
qed

subsection \<open>The indexed triangle array of a shape\<close>

lemma sint_of_nat_32: "sint (of_nat n :: 32 word) = int n" if "n < 2 ^ 31" for n :: nat
proof -
  from that have "int n < 2 ^ 31"
    by (metis of_nat_less_iff of_nat_numeral of_nat_power)
  then have "signed_take_bit 31 (int n) = int n"
    by (intro signed_take_bit_int_eq_self) simp_all
  then show ?thesis by (simp add: signed_of_nat)
qed

text \<open>
  Claim C8, amended to the meshes whose counts fit the \<^verbatim>\<open>int\<close> members of
  \<^verbatim>\<open>btIndexedMesh\<close>. Let the \<open>k\<close>-th mesh node of the walk (on a hierarchy that fits its
  mesh group) refer to a mesh with vertex list \<open>V\<close> and index list \<open>I\<close>,
  where \<open>|I| div 3\<close> and \<open>|V|\<close> are below \<open>2^31\<close>. Then the shape created for the node stands
  on a triangle index vertex array of exactly one indexed mesh, with triangle count
  \<open>|I| div 3\<close>, the index buffer \<open>I\<close> at a stride of three 4-byte indices, vertex count
  \<open>|V|\<close>, the vertex buffer \<open>V\<close> at a stride of three 4-byte floats, integer indices and
  float vertices.
\<close>

theorem indexed_mesh_of_shape:
  assumes "wellIndexed meshGroup node"
    and "k < length (meshNodes parentToWorld node)"
    and "mesh = meshGroup ! nat (snd (meshNodes parentToWorld node ! k))"
    and "length (indices mesh) div 3 < 2 ^ 31"
    and "length (positions mesh) < 2 ^ 31"
  shows "\<exists>st' shape im.
           constructBulletSceneFromMeshes X parentToWorld meshGroup node st = Inr st' \<and>
           derefShape st' (bSceneShapes st' ! (length (bSceneShapes st) + k)) = Some shape \<and>
           derefArray st' (m_meshInterface shape) = Some \<lparr>m_indexedMeshes = [im]\<rparr> \<and>
           sint (m_numTriangles im) = int (length (indices mesh) div 3) \<and>
           m_triangleIndexBase im = indices mesh \<and>
           sint (m_triangleIndexStride im) = 3 * 4 \<and>
           sint (m_numVertices im) = int (length (positions mesh)) \<and>
           m_vertexBase im = positions mesh \<and>
           sint (m_vertexStride im) = 3 * 4 \<and>
           m_indexType im = PHY_INTEGER \<and>
           m_vertexType im = PHY_FLOAT"
proof -
  let ?ns = "meshNodes parentToWorld node"
  let ?st' = "createAll X meshGroup ?ns st"
  let ?im = "(configureBulletMesh mesh)\<lparr>m_indexType := PHY_INTEGER\<rparr>"
  have "constructBulletSceneFromMeshes X parentToWorld meshGroup node st = Inr ?st'"
    using assms(1) by (rule construct_createAll(1))
  moreover have "derefShape ?st' (bSceneShapes ?st' ! (length (bSceneShapes st) + k)) =
      Some (shapeOf X (length (arrayStore st) + k) (fst (?ns ! k)))"
    using assms(2) by (simp add: createAll_nth_pointer createAll_deref)
  moreover have "derefArray ?st' (length (arrayStore st) + k) = Some \<lparr>m_indexedMeshes = [?im]\<rparr>"
    using assms(2,3) by (simp add: createAll_deref addIndexedMesh_def)
  moreover have "sint (m_numTriangles ?im) = int (length (indices mesh) div 3)"
    using assms(4) by (simp add: configureBulletMesh_def sint_of_nat_32)
  moreover have "sint (m_numVertices ?im) = int (length (positions mesh))"
    using assms(5) by (simp add: configureBulletMesh_def sint_of_nat_32)
  moreover have "sint (m_triangleIndexStride ?im) = 3 * 4" "sint (m_vertexStride ?im) = 3 * 4"
    by (simp_all add: configureBulletMesh_def sizeof_UnsignedInt_def sizeof_Vector3_def)
  moreover have "m_triangleIndexBase ?im = indices mesh" "m_vertexBase ?im = positions mesh"
      "m_indexType ?im = PHY_INTEGER" "m_vertexType ?im = PHY_FLOAT"
    by (simp_all add: configureBulletMesh_def)
  ultimately show ?thesis
    by (intro exI [of _ ?st'] exI [of _ "shapeOf X (length (arrayStore st) + k) (fst (?ns ! k))"]
        exI [of _ ?im]) (simp del: One_nat_def)
qed

text \<open>The triangle with three vertices: one triangle, strides of 12 bytes.\<close>

theorem indexed_mesh_of_shape_witness:
  "wellIndexed [exampleMesh] exampleNode \<and>
   0 < length (meshNodes 1 exampleNode) \<and>
   exampleMesh = [exampleMesh] ! nat (snd (meshNodes 1 exampleNode ! 0)) \<and>
   length (indices exampleMesh) div 3 < 2 ^ 31 \<and>
   length (positions exampleMesh) < 2 ^ 31 \<and>
   (\<exists>st' shape im.
      constructBulletSceneFromMeshes exampleExternals 1 [exampleMesh] exampleNode freshScene = Inr st' \<and>
      derefShape st' (bSceneShapes st' ! (length (bSceneShapes freshScene) + 0)) = Some shape \<and>
      derefArray st' (m_meshInterface shape) = Some \<lparr>m_indexedMeshes = [im]\<rparr> \<and>
      sint (m_numTriangles im) = 1 \<and>
      m_triangleIndexBase im = [0, 1, 2] \<and>
      sint (m_triangleIndexStride im) = 12 \<and>
      sint (m_numVertices im) = 3 \<and>
      m_vertexBase im = [Vector3 0 0 0, Vector3 1 0 0, Vector3 0 1 0] \<and>
      sint (m_vertexStride im) = 12 \<and>
      m_indexType im = PHY_INTEGER \<and>
      m_vertexType im = PHY_FLOAT)"
proof -
  have n: "meshNodes 1 exampleNode = [(1, 0)]"
    by (simp add: meshNodes_def exampleNode_def ID_UNDEFINED_def)
  have k: "0 < length (meshNodes 1 exampleNode)"
    and m: "exampleMesh = [exampleMesh] ! nat (snd (meshNodes 1 exampleNode ! 0))"
    by (simp_all add: n)
  have s: "length (indices exampleMesh) div 3 < 2 ^ 31" "length (positions exampleMesh) < 2 ^ 31"
    by (simp_all add: exampleMesh_def)
  have v: "int (length (indices exampleMesh) div 3) = 1" "int (length (positions exampleMesh)) = 3"
      "indices exampleMesh = [0, 1, 2]"
      "positions exampleMesh = [Vector3 0 0 0, Vector3 1 0 0, Vector3 0 1 0]"
    by (simp_all add: exampleMesh_def)
  from indexed_mesh_of_shape [OF example_wellIndexed(1) k m s, of exampleExternals freshScene]
    example_wellIndexed(1) k m s
  show ?thesis by (simp only: v simp_thms) simp
qed

lemma hugeMesh_sizes:
  "length (indices hugeMesh) = 6442450944" "length (positions hugeMesh) = 0"
  by (simp_all only: hugeMesh_def CollisionMeshData.select_convs length_replicate list.size)

text \<open>
  Without the bound the triangle count is not \<open>|I| div 3\<close>: for the mesh of 6442450944
  indices the walk creates a shape on an indexed mesh whose \<^verbatim>\<open>int\<close> triangle count reads
  -2147483648, while \<open>|I| div 3\<close> is 2147483648.
\<close>

theorem indexed_mesh_of_shape_counterexample:
  "constructBulletSceneFromMeshes exampleExternals 1 [hugeMesh] exampleNode freshScene =
     Inr (createStaticMesh exampleExternals 1 hugeMesh freshScene) \<and>
   derefShape (createStaticMesh exampleExternals 1 hugeMesh freshScene)
     (last (bSceneShapes (createStaticMesh exampleExternals 1 hugeMesh freshScene))) =
     Some \<lparr>m_meshInterface = 1, m_useQuantizedAabbCompression = True,
           m_collisionMargin = 4 / 100, m_localScaling = Vector3 1 1 1\<rparr> \<and>
   derefArray (createStaticMesh exampleExternals 1 hugeMesh freshScene) 1 =
     Some \<lparr>m_indexedMeshes = [configureBulletMesh hugeMesh]\<rparr> \<and>
   sint (m_numTriangles (configureBulletMesh hugeMesh)) = - 2147483648 \<and>
   int (length (indices hugeMesh) div 3) = 2147483648"
proof -
  have "constructBulletSceneFromMeshes exampleExternals 1 [hugeMesh] exampleNode freshScene =
      Inr (createStaticMesh exampleExternals 1 hugeMesh freshScene)"
    by (simp add: exampleNode_def ID_UNDEFINED_def)
  moreover have "derefShape (createStaticMesh exampleExternals 1 hugeMesh freshScene)
     (last (bSceneShapes (createStaticMesh exampleExternals 1 hugeMesh freshScene))) =
     Some \<lparr>m_meshInterface = 1, m_useQuantizedAabbCompression = True,
           m_collisionMargin = 4 / 100, m_localScaling = Vector3 1 1 1\<rparr>"
    by (simp add: createStaticMesh_fields derefShape_def example_scaling) (simp add: freshScene_def)
  moreover have "derefArray (createStaticMesh exampleExternals 1 hugeMesh freshScene) 1 =
     Some \<lparr>m_indexedMeshes = [configureBulletMesh hugeMesh]\<rparr>"
    by (simp add: createStaticMesh_fields derefArray_def addIndexedMesh_def)
       (simp add: freshScene_def configureBulletMesh_def)
  moreover have "sint (m_numTriangles (configureBulletMesh hugeMesh)) = - 2147483648"
    by (simp add: configureBulletMesh_def hugeMesh_sizes)
  moreover have "int (length (indices hugeMesh) div 3) = 2147483648"
    by (simp add: hugeMesh_sizes)
  ultimately show ?thesis by (simp only: simp_thms)
qed

section \<open>Initialization\<close>

text \<open>
  Claim C5. A node whose mesh index is undefined creates nothing itself, and its children
  are walked from the product of its parent's world transform and its own local transform.
  The walk of a hierarchy (that fits its mesh group) adds as many shapes, and as many
  collision objects, as the hierarchy has nodes with a defined mesh index, and registers
  nothing. The initialization of a scene just constructed leaves as many shapes as there
  are such nodes, all distinct, each the shape of its own collision object, and has
  registered each collision object of the scene with the world exactly once.
\<close>

theorem one_shape_per_mesh_node:
  "constructBulletSceneFromMeshes X parentToWorld meshGroup
       (MeshTransformNode localToParent ID_UNDEFINED childNodes) st =
     constructChildren X (parentToWorld * localToParent) meshGroup childNodes st \<and>
   (wellIndexed meshGroup node \<longrightarrow>
      (\<exists>st1. constructBulletSceneFromMeshes X parentToWorld meshGroup node st = Inr st1 \<and>
         length (bSceneShapes st1) = length (bSceneShapes st) + countMeshNodes node \<and>
         length (shapeStore st1) = length (shapeStore st) + countMeshNodes node \<and>
         length (bStaticCollisionObjects st1) =
           length (bStaticCollisionObjects st) + countMeshNodes node \<and>
         bWorld st1 = bWorld st)) \<and>
   (bSceneArrays st = [] \<and> bSceneShapes st = [] \<and> bStaticCollisionObjects st = [] \<and>
    list_all (\<lambda>q. q < length (objectStore st)) (bWorld st) \<and>
    collisionMeshGroups resMgr (collisionAssetHandle (initializationAttributes st)) = Some meshGroup \<and>
    resourceDict resMgr (collisionAssetHandle (initializationAttributes st)) = Some loaded \<and>
    wellIndexed meshGroup (root_node (meshMetaData loaded)) \<longrightarrow>
      (\<exists>st2. initialization_LibSpecific X resMgr st = Inr (True, st2) \<and>
         length (bSceneShapes st2) = countMeshNodes (root_node (meshMetaData loaded)) \<and>
         distinct (bSceneShapes st2) \<and>
         distinct (bStaticCollisionObjects st2) \<and>
         map (\<lambda>p. Option.bind (derefObject st2 p) m_collisionShape) (bStaticCollisionObjects st2) =
           map Some (bSceneShapes st2) \<and>
         bWorld st2 = bWorld st @ bStaticCollisionObjects st2 \<and>
         (\<forall>p \<in> set (bStaticCollisionObjects st2). count_list (bWorld st2) p = 1)))"
proof (intro conjI impI)
  show "constructBulletSceneFromMeshes X parentToWorld meshGroup
       (MeshTransformNode localToParent ID_UNDEFINED childNodes) st =
     constructChildren X (parentToWorld * localToParent) meshGroup childNodes st"
    by simp
next
  assume "wellIndexed meshGroup node"
  then have "constructBulletSceneFromMeshes X parentToWorld meshGroup node st =
      Inr (createAll X meshGroup (meshNodes parentToWorld node) st)"
    by (rule construct_createAll(1))
  then show "\<exists>st1. constructBulletSceneFromMeshes X parentToWorld meshGroup node st = Inr st1 \<and>
         length (bSceneShapes st1) = length (bSceneShapes st) + countMeshNodes node \<and>
         length (shapeStore st1) = length (shapeStore st) + countMeshNodes node \<and>
         length (bStaticCollisionObjects st1) =
           length (bStaticCollisionObjects st) + countMeshNodes node \<and>
         bWorld st1 = bWorld st"
    by (simp add: createAll_bSceneShapes createAll_shapeStore createAll_bStaticCollisionObjects
        createAll_unchanged count_meshNodes)
next
  let ?h = "collisionAssetHandle (initializationAttributes st)"
  let ?root = "root_node (meshMetaData loaded)"
  let ?ns = "meshNodes 1 ?root"
  let ?st1 = "createAll X meshGroup ?ns st"
  let ?ps = "bStaticCollisionObjects ?st1"
  let ?st2 = "?st1\<lparr>objectStore :=
                 fold (\<lambda>p s. s[p := map_option (withCoefficients ?st1) (s ! p)]) ?ps (objectStore ?st1),
               bWorld := bWorld ?st1 @ ?ps\<rparr>"
  assume a: "bSceneArrays st = [] \<and> bSceneShapes st = [] \<and> bStaticCollisionObjects st = [] \<and>
    list_all (\<lambda>q. q < length (objectStore st)) (bWorld st) \<and>
    collisionMeshGroups resMgr ?h = Some meshGroup \<and>
    resourceDict resMgr ?h = Some loaded \<and> wellIndexed meshGroup ?root"
  then have c: "constructBulletSceneFromMeshes X 1 meshGroup ?root st = Inr ?st1"
    by (simp add: construct_createAll(1))
  from a have "\<forall>p \<in> set (bStaticCollisionObjects st). derefObject st p \<noteq> None"
    by simp
  then have "\<forall>p \<in> set ?ps. derefObject ?st1 p \<noteq> None"
    by (rule live_createAll)
  then have "forEach registerObject ?ps ?st1 = Inr ?st2"
    by (rule register_loop)
  with a c have init: "initialization_LibSpecific X resMgr st = Inr (True, ?st2)"
    by (simp add: initialization_LibSpecific_def getCollisionMesh_def getMeshMetaData_def)
  from a have ps: "?ps = [length (objectStore st)..<length (objectStore st) + length ?ns]"
    by (simp add: createAll_bStaticCollisionObjects map_fst_enumerate)
  from a have shapes1:
    "bSceneShapes ?st1 = [length (shapeStore st)..<length (shapeStore st) + length ?ns]"
    by (simp add: createAll_bSceneShapes map_fst_enumerate)
  have objs: "bStaticCollisionObjects ?st2 = ?ps" by simp
  have count: "length (bSceneShapes ?st2) = countMeshNodes ?root"
    by (simp add: shapes1 count_meshNodes)
  have d: "derefObject ?st2 q =
      (if q \<in> set ?ps then map_option (withCoefficients ?st1) (derefObject ?st1 q)
       else derefObject ?st1 q)" for q
    by (simp only: derefObject_bWorld) (rule derefObject_after_updates, simp)
  have own: "map (\<lambda>p. Option.bind (derefObject ?st2 p) m_collisionShape) ?ps =
      map Some (bSceneShapes ?st2)"
  proof (rule nth_equalityI)
    show "length (map (\<lambda>p. Option.bind (derefObject ?st2 p) m_collisionShape) ?ps) =
        length (map Some (bSceneShapes ?st2))"
      by (simp add: ps shapes1)
  next
    fix k assume "k < length (map (\<lambda>p. Option.bind (derefObject ?st2 p) m_collisionShape) ?ps)"
    then have k: "k < length ?ns" by (simp add: ps)
    then have "?ps ! k = length (objectStore st) + k" "?ps ! k \<in> set ?ps"
      by (simp_all add: ps)
    moreover have "derefObject ?st1 (length (objectStore st) + k) =
        Some (objectOf X (length (shapeStore st) + k) (fst (?ns ! k)))"
      using k by (rule createAll_deref(3))
    ultimately have "Option.bind (derefObject ?st2 (?ps ! k)) m_collisionShape =
        Some (length (shapeStore st) + k)"
      by (simp add: d)
    with k show "map (\<lambda>p. Option.bind (derefObject ?st2 p) m_collisionShape) ?ps ! k =
        map Some (bSceneShapes ?st2) ! k"
      by (simp add: shapes1) (simp add: ps)
  qed
  have world: "bWorld ?st2 = bWorld st @ ?ps"
    by (simp add: createAll_unchanged)
  have once: "\<forall>p \<in> set ?ps. count_list (bWorld ?st2) p = 1"
  proof
    fix p assume p: "p \<in> set ?ps"
    then have "length (objectStore st) \<le> p" by (simp add: ps)
    with a have "p \<notin> set (bWorld st)" by (auto simp: list_all_iff)
    then have "count_list (bWorld st) p = 0" by (rule count_list_absent)
    moreover from p have "count_list ?ps p = 1"
      by (subst ps) (simp add: count_list_upt ps)
    ultimately show "count_list (bWorld ?st2) p = 1"
      by (simp only: world count_list_append)
  qed
  have dist: "distinct (bSceneShapes ?st2)" "distinct ?ps"
    by (simp_all add: shapes1 ps)
  from init count dist own world once objs
  show "\<exists>st2. initialization_LibSpecific X resMgr st = Inr (True, st2) \<and>
         length (bSceneShapes st2) = countMeshNodes ?root \<and>
         distinct (bSceneShapes st2) \<and>
         distinct (bStaticCollisionObjects st2) \<and>
         map (\<lambda>p. Option.bind (derefObject st2 p) m_collisionShape) (bStaticCollisionObjects st2) =
           map Some (bSceneShapes st2) \<and>
         bWorld st2 = bWorld st @ bStaticCollisionObjects st2 \<and>
         (\<forall>p \<in> set (bStaticCollisionObjects st2). count_list (bWorld st2) p = 1)"
    by (intro exI [of _ ?st2]) (simp only: simp_thms)
qed

text \<open>The group node over three cubes: three shapes, three objects, registered behind the
  object the world already held.\<close>

theorem one_shape_per_mesh_node_witness:
  "wellIndexed [exampleMesh] threeCubes \<and>
   bSceneArrays freshScene = [] \<and> bSceneShapes freshScene = [] \<and>
   bStaticCollisionObjects freshScene = [] \<and>
   list_all (\<lambda>q. q < length (objectStore freshScene)) (bWorld freshScene) \<and>
   collisionMeshGroups exampleManager (collisionAssetHandle (initializationAttributes freshScene)) =
     Some [exampleMesh] \<and>
   resourceDict exampleManager (collisionAssetHandle (initializationAttributes freshScene)) =
     Some \<lparr>meshMetaData = \<lparr>root_node = threeCubes\<rparr>\<rparr> \<and>
   countMeshNodes threeCubes = 3 \<and>
   (\<exists>st1. constructBulletSceneFromMeshes exampleExternals 1 [exampleMesh] threeCubes freshScene =
            Inr st1 \<and>
      length (bSceneShapes st1) = 3 \<and> length (shapeStore st1) = 4 \<and>
      length (bStaticCollisionObjects st1) = 3 \<and> bWorld st1 = [0]) \<and>
   initialization_LibSpecific exampleExternals exampleManager freshScene =
     Inr (True, threeCubesScene) \<and>
   length (bSceneShapes threeCubesScene) = 3 \<and>
   distinct (bSceneShapes threeCubesScene) \<and>
   distinct (bStaticCollisionObjects threeCubesScene) \<and>
   bWorld threeCubesScene = bWorld freshScene @ bStaticCollisionObjects threeCubesScene \<and>
   map (count_list (bWorld threeCubesScene)) (bStaticCollisionObjects threeCubesScene) = [1, 1, 1]"
proof -
  have n: "countMeshNodes threeCubes = 3"
    by (simp add: threeCubes_def ID_UNDEFINED_def)
  have f: "length (bSceneShapes freshScene) = 0" "length (shapeStore freshScene) = 1"
      "length (bStaticCollisionObjects freshScene) = 0" "bWorld freshScene = [0]"
    by (simp_all add: freshScene_def)
  have c: "map (count_list (bWorld threeCubesScene)) (bStaticCollisionObjects threeCubesScene) =
      [1, 1, 1]"
    by (simp add: threeCubesScene_def)
  from one_shape_per_mesh_node
    [of exampleExternals 1 "[exampleMesh]" 1 "[]" freshScene threeCubes exampleManager
        "\<lparr>meshMetaData = \<lparr>root_node = threeCubes\<rparr>\<rparr>"]
    example_wellIndexed(3) fresh_facts manager_facts c
  show ?thesis
    by (auto simp: n f example_initialization simp del: wellIndexed.simps
        constructBulletSceneFromMeshes.simps)
qed

text \<open>
  Claim C10. The initialization never returns \<open>false\<close>. When the asset of the scene is
  loaded (its mesh group and its metadata are in the resource manager), its hierarchy
  fits its mesh group and the owning pointers of the scene are live, the initialization
  returns \<open>true\<close>; so it does for a hierarchy
  without any mesh node, and then it leaves the scene as it was, with no collision object.
\<close>

theorem initialization_returns_true:
  "initialization_LibSpecific X resMgr st \<noteq> Inr (False, st') \<and>
   (collisionMeshGroups resMgr (collisionAssetHandle (initializationAttributes st)) = Some meshGroup \<and>
    resourceDict resMgr (collisionAssetHandle (initializationAttributes st)) = Some loaded \<and>
    wellIndexed meshGroup (root_node (meshMetaData loaded)) \<and>
    ownsLiveObjects st \<longrightarrow>
      (\<exists>st2. initialization_LibSpecific X resMgr st = Inr (True, st2)) \<and>
      (countMeshNodes (root_node (meshMetaData loaded)) = 0 \<and> bStaticCollisionObjects st = [] \<longrightarrow>
         initialization_LibSpecific X resMgr st = Inr (True, st)))"
proof (intro conjI impI)
  show "initialization_LibSpecific X resMgr st \<noteq> Inr (False, st')"
    by (simp add: initialization_LibSpecific_def Let_def split: sum.splits)
next
  let ?h = "collisionAssetHandle (initializationAttributes st)"
  let ?root = "root_node (meshMetaData loaded)"
  let ?st1 = "createAll X meshGroup (meshNodes 1 ?root) st"
  assume a: "collisionMeshGroups resMgr ?h = Some meshGroup \<and>
    resourceDict resMgr ?h = Some loaded \<and> wellIndexed meshGroup ?root \<and> ownsLiveObjects st"
  then have c: "constructBulletSceneFromMeshes X 1 meshGroup ?root st = Inr ?st1"
    by (simp add: construct_createAll(1))
  from a have "\<forall>p \<in> set (bStaticCollisionObjects st). derefObject st p \<noteq> None"
    by (simp add: owners_live)
  then have "\<forall>p \<in> set (bStaticCollisionObjects ?st1). derefObject ?st1 p \<noteq> None"
    by (rule live_createAll)
  then have loop: "forEach registerObject (bStaticCollisionObjects ?st1) ?st1 =
      Inr (?st1\<lparr>objectStore :=
                 fold (\<lambda>p s. s[p := map_option (withCoefficients ?st1) (s ! p)])
                   (bStaticCollisionObjects ?st1) (objectStore ?st1),
               bWorld := bWorld ?st1 @ bStaticCollisionObjects ?st1\<rparr>)"
    by (rule register_loop)
  from a c loop show "\<exists>st2. initialization_LibSpecific X resMgr st = Inr (True, st2)"
    by (simp add: initialization_LibSpecific_def getCollisionMesh_def getMeshMetaData_def)
  {
    assume z: "countMeshNodes ?root = 0 \<and> bStaticCollisionObjects st = []"
    then have "meshNodes 1 ?root = []"
      using count_meshNodes(1) [of 1 ?root] by simp
    with a c z show "initialization_LibSpecific X resMgr st = Inr (True, st)"
      by (simp add: initialization_LibSpecific_def getCollisionMesh_def getMeshMetaData_def
          createAll_Nil)
  }
qed

text \<open>The three cubes, and an asset of group nodes only.\<close>

theorem initialization_returns_true_witness:
  "collisionMeshGroups exampleManager (collisionAssetHandle (initializationAttributes freshScene)) =
     Some [exampleMesh] \<and>
   resourceDict exampleManager (collisionAssetHandle (initializationAttributes freshScene)) =
     Some \<lparr>meshMetaData = \<lparr>root_node = threeCubes\<rparr>\<rparr> \<and>
   wellIndexed [exampleMesh] threeCubes \<and>
   ownsLiveObjects freshScene \<and>
   (\<exists>st2. initialization_LibSpecific exampleExternals exampleManager freshScene = Inr (True, st2)) \<and>
   collisionMeshGroups groupManager (collisionAssetHandle (initializationAttributes freshScene)) =
     Some [] \<and>
   resourceDict groupManager (collisionAssetHandle (initializationAttributes freshScene)) =
     Some \<lparr>meshMetaData = \<lparr>root_node = groupOnly\<rparr>\<rparr> \<and>
   wellIndexed [] groupOnly \<and>
   countMeshNodes groupOnly = 0 \<and>
   bStaticCollisionObjects freshScene = [] \<and>
   initialization_LibSpecific exampleExternals groupManager freshScene = Inr (True, freshScene)"
proof -
  have g: "collisionMeshGroups groupManager ''cubes.glb'' = Some []"
      "resourceDict groupManager ''cubes.glb'' = Some \<lparr>meshMetaData = \<lparr>root_node = groupOnly\<rparr>\<rparr>"
      "wellIndexed [] groupOnly" "countMeshNodes groupOnly = 0"
    by (simp_all add: groupManager_def groupOnly_def)
  from initialization_returns_true
      [of exampleExternals exampleManager freshScene freshScene "[exampleMesh]"
          "\<lparr>meshMetaData = \<lparr>root_node = threeCubes\<rparr>\<rparr>"]
    initialization_returns_true
      [of exampleExternals groupManager freshScene freshScene "[]"
          "\<lparr>meshMetaData = \<lparr>root_node = groupOnly\<rparr>\<rparr>"]
    example_wellIndexed(3) fresh_facts(3,5,6) manager_facts g
  show ?thesis
    by (simp del: wellIndexed.simps)
qed

section \<open>Friction and restitution\<close>

text \<open>
  Claim C4, amended to the conversion that storing a coefficient performs. On a scene of
  any number of components (whose owning pointers are live, as the class keeps them) and
  for every coefficient \<open>f\<close>, a \<^verbatim>\<open>double\<close>, setting the friction (the restitution) to \<open>f\<close>
  succeeds and afterwards every component reports \<open>f\<close> converted to \<^verbatim>\<open>btScalar\<close>, that is to
  single precision. When there is a component, the getter then returns that converted value, and in any state it returns what the last component of the
  vector holds. When there is no component, both getters return 0 and do not fail, also
  after the setters. The converted value is a value of single precision, and it is \<open>f\<close>
  itself when \<open>f\<close> is one.
\<close>

theorem coefficients_uniform_across_components:
  assumes "ownsLiveObjects st"
  shows "\<exists>st1 st2.
     setFrictionCoefficient f st = Inr st1 \<and>
     setRestitutionCoefficient f st = Inr st2 \<and>
     bStaticCollisionObjects st1 = bStaticCollisionObjects st \<and>
     bStaticCollisionObjects st2 = bStaticCollisionObjects st \<and>
     (\<forall>p \<in> set (bStaticCollisionObjects st).
        map_option m_friction (derefObject st1 p) = Some (toBtScalar f) \<and>
        map_option m_restitution (derefObject st2 p) = Some (toBtScalar f)) \<and>
     (bStaticCollisionObjects st \<noteq> [] \<longrightarrow>
        getFrictionCoefficient st1 = Inr (toBtScalar f) \<and>
        getRestitutionCoefficient st2 = Inr (toBtScalar f) \<and>
        (\<exists>ob. derefObject st (last (bStaticCollisionObjects st)) = Some ob \<and>
           getFrictionCoefficient st = Inr (m_friction ob) \<and>
           getRestitutionCoefficient st = Inr (m_restitution ob))) \<and>
     (bStaticCollisionObjects st = [] \<longrightarrow>
        getFrictionCoefficient st = Inr (Finite 0) \<and>
        getRestitutionCoefficient st = Inr (Finite 0) \<and>
        getFrictionCoefficient st1 = Inr (Finite 0) \<and>
        getRestitutionCoefficient st2 = Inr (Finite 0)) \<and>
     singlePrecision (toBtScalar f) \<and>
     (singlePrecision f \<longrightarrow> toBtScalar f = f)"
proof -
  let ?ps = "bStaticCollisionObjects st"
  let ?gf = "\<lambda>ob. ob\<lparr>m_friction := toBtScalar f\<rparr>"
  let ?gr = "\<lambda>ob. ob\<lparr>m_restitution := toBtScalar f\<rparr>"
  let ?st1 = "st\<lparr>objectStore := fold (\<lambda>p s. s[p := map_option ?gf (s ! p)]) ?ps (objectStore st)\<rparr>"
  let ?st2 = "st\<lparr>objectStore := fold (\<lambda>p s. s[p := map_option ?gr (s ! p)]) ?ps (objectStore st)\<rparr>"
  from assms have live: "\<forall>p \<in> set ?ps. derefObject st p \<noteq> None" by (rule owners_live)
  then have s1: "setFrictionCoefficient f st = Inr ?st1"
    and s2: "setRestitutionCoefficient f st = Inr ?st2"
    by (simp_all add: setFrictionCoefficient_def setRestitutionCoefficient_def forEach_updateObject)
  have d1: "derefObject ?st1 q =
      (if q \<in> set ?ps then map_option ?gf (derefObject st q) else derefObject st q)" for q
    by (rule derefObject_after_updates) simp
  have d2: "derefObject ?st2 q =
      (if q \<in> set ?ps then map_option ?gr (derefObject st q) else derefObject st q)" for q
    by (rule derefObject_after_updates) simp
  have each: "\<forall>p \<in> set ?ps. map_option m_friction (derefObject ?st1 p) = Some (toBtScalar f) \<and>
      map_option m_restitution (derefObject ?st2 p) = Some (toBtScalar f)"
    using live by (auto simp: d1 d2)
  have nonempty: "getFrictionCoefficient ?st1 = Inr (toBtScalar f) \<and>
        getRestitutionCoefficient ?st2 = Inr (toBtScalar f) \<and>
        (\<exists>ob. derefObject st (last ?ps) = Some ob \<and>
           getFrictionCoefficient st = Inr (m_friction ob) \<and>
           getRestitutionCoefficient st = Inr (m_restitution ob))" if "?ps \<noteq> []"
  proof -
    from that have "last ?ps \<in> set ?ps" by simp
    with live obtain ob where ob: "derefObject st (last ?ps) = Some ob" by auto
    with that \<open>last ?ps \<in> set ?ps\<close> show ?thesis
      by (simp add: getFrictionCoefficient_def getRestitutionCoefficient_def d1 d2)
  qed
  have empty: "getFrictionCoefficient st = Inr (Finite 0) \<and>
        getRestitutionCoefficient st = Inr (Finite 0) \<and>
        getFrictionCoefficient ?st1 = Inr (Finite 0) \<and>
        getRestitutionCoefficient ?st2 = Inr (Finite 0)" if "?ps = []"
    using that by (simp add: getFrictionCoefficient_def getRestitutionCoefficient_def)
  have same: "singlePrecision (toBtScalar f) \<and> (singlePrecision f \<longrightarrow> toBtScalar f = f)"
    by (simp add: toBtScalar_single toBtScalar_fixed)
  show ?thesis
    using s1 s2 each nonempty empty same
    by (intro exI [of _ ?st1] exI [of _ ?st2]) simp
qed

text \<open>
  The three cubes, initialized with friction 3/4 and restitution 1/8: set to 1/4, a value of
  single precision, every cube reports 1/4 and so do the getters; set to the \<^verbatim>\<open>double\<close>
  nearest to 0.7, every cube reports the \<^verbatim>\<open>float\<close> nearest to it. The scene without
  components answers 0.
\<close>

theorem coefficients_uniform_across_components_witness:
  "ownsLiveObjects threeCubesScene \<and> ownsLiveObjects freshScene \<and>
   bStaticCollisionObjects threeCubesScene \<noteq> [] \<and> bStaticCollisionObjects freshScene = [] \<and>
   singlePrecision (Finite (1 / 4)) \<and>
   (\<exists>st1 st2.
      setFrictionCoefficient (Finite (1 / 4)) threeCubesScene = Inr st1 \<and>
      setRestitutionCoefficient (Finite (1 / 4)) threeCubesScene = Inr st2 \<and>
      (\<forall>p \<in> set (bStaticCollisionObjects threeCubesScene).
         map_option m_friction (derefObject st1 p) = Some (Finite (1 / 4)) \<and>
         map_option m_restitution (derefObject st2 p) = Some (Finite (1 / 4))) \<and>
      getFrictionCoefficient st1 = Inr (Finite (1 / 4)) \<and>
      getRestitutionCoefficient st2 = Inr (Finite (1 / 4))) \<and>
   (\<exists>st1 st2.
      setFrictionCoefficient double_0_7 threeCubesScene = Inr st1 \<and>
      setRestitutionCoefficient double_0_7 threeCubesScene = Inr st2 \<and>
      (\<forall>p \<in> set (bStaticCollisionObjects threeCubesScene).
         map_option m_friction (derefObject st1 p) = Some float_0_7 \<and>
         map_option m_restitution (derefObject st2 p) = Some float_0_7) \<and>
      getFrictionCoefficient st1 = Inr float_0_7 \<and>
      getRestitutionCoefficient st2 = Inr float_0_7) \<and>
   getFrictionCoefficient threeCubesScene = Inr (Finite (3 / 4)) \<and>
   getRestitutionCoefficient threeCubesScene = Inr (Finite (1 / 8)) \<and>
   getFrictionCoefficient freshScene = Inr (Finite 0) \<and>
   getRestitutionCoefficient freshScene = Inr (Finite 0)"
proof -
  have cubes: "bStaticCollisionObjects threeCubesScene \<noteq> []"
    by (simp add: threeCubesScene_def)
  have now: "getFrictionCoefficient threeCubesScene = Inr (Finite (3 / 4))"
      "getRestitutionCoefficient threeCubesScene = Inr (Finite (1 / 8))"
    by (simp_all add: getFrictionCoefficient_def getRestitutionCoefficient_def
        threeCubesScene_def derefObject_def cubeObject_def)
  from coefficients_uniform_across_components [OF threeCubes_owned, of "Finite (1 / 4)"]
    example_single(1)
  have same: "toBtScalar (Finite (1 / 4)) = Finite (1 / 4)" by blast
  from coefficients_uniform_across_components [OF threeCubes_owned, of "Finite (1 / 4)"]
    coefficients_uniform_across_components [OF threeCubes_owned, of double_0_7]
    coefficients_uniform_across_components [OF fresh_facts(6), of "Finite 0"]
    threeCubes_owned fresh_facts(3,6) cubes now example_single(1)
  show ?thesis by (simp only: simp_thms same example_narrowed(1)) blast
qed

text \<open>
  The coefficient itself is not what is reported in general. Set to the \<^verbatim>\<open>double\<close> nearest
  to 0.7, which is 3152519739159347 / 4503599627370496, every cube holds and the getter
  returns 11744051 / 16777216, the \<^verbatim>\<open>float\<close> nearest to it; set to the \<^verbatim>\<open>double\<close> nearest to
  \<open>10 ^ 40\<close>, every cube holds and the getter returns an infinity.
\<close>

theorem coefficients_uniform_across_components_counterexample:
  "ownsLiveObjects threeCubesScene \<and>
   bStaticCollisionObjects threeCubesScene = [1, 2, 3] \<and>
   setFrictionCoefficient double_0_7 threeCubesScene =
     Inr (cubesWith float_0_7 (Finite (1 / 8))) \<and>
   map_option m_friction (derefObject (cubesWith float_0_7 (Finite (1 / 8))) 1) = Some float_0_7 \<and>
   map_option m_friction (derefObject (cubesWith float_0_7 (Finite (1 / 8))) 2) = Some float_0_7 \<and>
   map_option m_friction (derefObject (cubesWith float_0_7 (Finite (1 / 8))) 3) = Some float_0_7 \<and>
   getFrictionCoefficient (cubesWith float_0_7 (Finite (1 / 8))) = Inr float_0_7 \<and>
   float_0_7 \<noteq> double_0_7 \<and>
   setRestitutionCoefficient double_1e40 threeCubesScene =
     Inr (cubesWith (Finite (3 / 4)) PlusInfinity) \<and>
   map_option m_restitution (derefObject (cubesWith (Finite (3 / 4)) PlusInfinity) 1) =
     Some PlusInfinity \<and>
   map_option m_restitution (derefObject (cubesWith (Finite (3 / 4)) PlusInfinity) 2) =
     Some PlusInfinity \<and>
   map_option m_restitution (derefObject (cubesWith (Finite (3 / 4)) PlusInfinity) 3) =
     Some PlusInfinity \<and>
   getRestitutionCoefficient (cubesWith (Finite (3 / 4)) PlusInfinity) = Inr PlusInfinity \<and>
   PlusInfinity \<noteq> double_1e40"
proof -
  have objs: "bStaticCollisionObjects threeCubesScene = [1, 2, 3]"
    by (simp add: threeCubesScene_def)
  have set1: "setFrictionCoefficient double_0_7 threeCubesScene =
      Inr (cubesWith float_0_7 (Finite (1 / 8)))"
    by (simp add: setFrictionCoefficient_def example_narrowed objs)
       (simp add: threeCubesScene_def cubesWith_def updateObject_def derefObject_def cubeObject_def)
  have set2: "setRestitutionCoefficient double_1e40 threeCubesScene =
      Inr (cubesWith (Finite (3 / 4)) PlusInfinity)"
    by (simp add: setRestitutionCoefficient_def example_narrowed objs)
       (simp add: threeCubesScene_def cubesWith_def updateObject_def derefObject_def cubeObject_def)
  have held: "map_option m_friction (derefObject (cubesWith fr re) 1) = Some fr"
      "map_option m_friction (derefObject (cubesWith fr re) 2) = Some fr"
      "map_option m_friction (derefObject (cubesWith fr re) 3) = Some fr"
      "map_option m_restitution (derefObject (cubesWith fr re) 1) = Some re"
      "map_option m_restitution (derefObject (cubesWith fr re) 2) = Some re"
      "map_option m_restitution (derefObject (cubesWith fr re) 3) = Some re"
      "getFrictionCoefficient (cubesWith fr re) = Inr fr"
      "getRestitutionCoefficient (cubesWith fr re) = Inr re" for fr re
    by (simp_all add: cubesWith_def threeCubesScene_def derefObject_def
        getFrictionCoefficient_def getRestitutionCoefficient_def)
  have differ: "float_0_7 \<noteq> double_0_7" "PlusInfinity \<noteq> double_1e40"
    by (simp_all add: float_0_7_def double_0_7_def double_1e40_def)
  from threeCubes_owned objs set1 set2 held differ show ?thesis
    by (simp only: simp_thms)
qed

section \<open>Teardown\<close>

lemma remove1_once:
  "count_list w p \<le> 1 \<Longrightarrow> remove1 p w = filter (\<lambda>q. q \<noteq> p) w"
proof (induction w)
  case Nil
  then show ?case by simp
next
  case (Cons a w)
  show ?case
  proof (cases "a = p")
    case True
    with Cons.prems have "count_list w p = 0" by simp
    then have "p \<notin> set w" by (simp add: count_list_0_iff)
    then have "filter (\<lambda>q. q \<noteq> p) w = w" by (auto simp: filter_id_conv)
    with True show ?thesis by simp
  next
    case False
    with Cons show ?thesis by simp
  qed
qed

lemma count_list_filter: "count_list (filter P w) q \<le> count_list w q"
  by (induction w) simp_all

lemma unregister_all:
  "\<forall>p \<in> set ps. count_list w p \<le> 1 \<Longrightarrow>
     fold removeCollisionObject ps w = filter (\<lambda>q. q \<notin> set ps) w"
proof (induction ps arbitrary: w)
  case Nil
  then show ?case by simp
next
  case (Cons p ps)
  then have first: "removeCollisionObject p w = filter (\<lambda>q. q \<noteq> p) w"
    by (simp add: removeCollisionObject_def remove1_once)
  have "\<forall>q \<in> set ps. count_list (filter (\<lambda>q. q \<noteq> p) w) q \<le> 1"
    using Cons.prems by (meson count_list_filter le_trans list.set_intros(2))
  then have "fold removeCollisionObject ps (filter (\<lambda>q. q \<noteq> p) w) =
      filter (\<lambda>q. q \<notin> set ps) (filter (\<lambda>q. q \<noteq> p) w)"
    by (rule Cons.IH)
  with first show ?case by (simp add: conj_commute)
qed

lemma release_length: "length (release ps store) = length store"
  unfolding release_def by (induction ps arbitrary: store) simp_all

lemma release_nth:
  "q < length store \<Longrightarrow> release ps store ! q = (if q \<in> set ps then None else store ! q)"
  unfolding release_def
proof (induction ps arbitrary: store)
  case Nil
  then show ?case by simp
next
  case (Cons p ps)
  then have "fold (\<lambda>p s. s[p := None]) ps (store[p := None]) ! q =
      (if q \<in> set ps then None else store[p := None] ! q)"
    by simp
  with Cons.prems show ?case by (auto simp: nth_list_update)
qed

text \<open>
  Claim C7. Let no collision object of the scene be registered more than once. The body of
  the destructor takes every collision object of the scene out of the world, and nothing
  else, while the objects are all still allocated; only then are they released. After the
  destructor no released object is registered, and every pointer the world still holds
  refers to what it referred to before. In particular a scene that is constructed,
  initialized and destroyed leaves the world as it found it.
\<close>

theorem teardown_unregisters_before_release:
  "(list_all (\<lambda>p. count_list (bWorld st) p \<le> 1) (bStaticCollisionObjects st) \<longrightarrow>
      bWorld (destructorBody st) =
        filter (\<lambda>q. q \<notin> set (bStaticCollisionObjects st)) (bWorld st) \<and>
      objectStore (destructorBody st) = objectStore st \<and>
      bStaticCollisionObjects (destructorBody st) = bStaticCollisionObjects st \<and>
      bWorld (BulletRigidScene_destructor st) = bWorld (destructorBody st) \<and>
      (\<forall>p \<in> set (bStaticCollisionObjects st).
         p \<notin> set (bWorld (BulletRigidScene_destructor st)) \<and>
         derefObject (BulletRigidScene_destructor st) p = None) \<and>
      (\<forall>q \<in> set (bWorld (BulletRigidScene_destructor st)).
         derefObject (BulletRigidScene_destructor st) q = derefObject st q)) \<and>
   (bStaticCollisionObjects st = [] \<and>
    list_all (\<lambda>q. q < length (objectStore st)) (bWorld st) \<and>
    collisionMeshGroups resMgr (collisionAssetHandle (initializationAttributes st)) = Some meshGroup \<and>
    resourceDict resMgr (collisionAssetHandle (initializationAttributes st)) = Some loaded \<and>
    wellIndexed meshGroup (root_node (meshMetaData loaded)) \<longrightarrow>
      (\<exists>st2. initialization_LibSpecific X resMgr st = Inr (True, st2) \<and>
         bWorld (BulletRigidScene_destructor st2) = bWorld st))"
proof -
  have general: "bWorld (destructorBody s) =
        filter (\<lambda>q. q \<notin> set (bStaticCollisionObjects s)) (bWorld s) \<and>
      objectStore (destructorBody s) = objectStore s \<and>
      bStaticCollisionObjects (destructorBody s) = bStaticCollisionObjects s \<and>
      bWorld (BulletRigidScene_destructor s) = bWorld (destructorBody s) \<and>
      (\<forall>p \<in> set (bStaticCollisionObjects s).
         p \<notin> set (bWorld (BulletRigidScene_destructor s)) \<and>
         derefObject (BulletRigidScene_destructor s) p = None) \<and>
      (\<forall>q \<in> set (bWorld (BulletRigidScene_destructor s)).
         derefObject (BulletRigidScene_destructor s) q = derefObject s q)"
    if "list_all (\<lambda>p. count_list (bWorld s) p \<le> 1) (bStaticCollisionObjects s)" for s
  proof -
    from that have "\<forall>p \<in> set (bStaticCollisionObjects s). count_list (bWorld s) p \<le> 1"
      by (simp add: list_all_iff)
    then have w: "bWorld (destructorBody s) =
        filter (\<lambda>q. q \<notin> set (bStaticCollisionObjects s)) (bWorld s)"
      by (simp add: destructorBody_def unregister_all)
    have same: "objectStore (destructorBody s) = objectStore s"
        "bStaticCollisionObjects (destructorBody s) = bStaticCollisionObjects s"
      by (simp_all add: destructorBody_def)
    have w': "bWorld (BulletRigidScene_destructor s) = bWorld (destructorBody s)"
      by (simp add: BulletRigidScene_destructor_def destroyMembers_def)
    have d: "derefObject (BulletRigidScene_destructor s) q =
        (if q \<in> set (bStaticCollisionObjects s) then None else derefObject s q)" for q
      by (simp add: BulletRigidScene_destructor_def destroyMembers_def derefObject_def same
          release_length release_nth)
    show ?thesis
      using w same w' by (simp add: d)
  qed
  have cycle: "\<exists>st2. initialization_LibSpecific X resMgr st = Inr (True, st2) \<and>
         bWorld (BulletRigidScene_destructor st2) = bWorld st"
    if a: "bStaticCollisionObjects st = [] \<and>
      list_all (\<lambda>q. q < length (objectStore st)) (bWorld st) \<and>
      collisionMeshGroups resMgr (collisionAssetHandle (initializationAttributes st)) = Some meshGroup \<and>
      resourceDict resMgr (collisionAssetHandle (initializationAttributes st)) = Some loaded \<and>
      wellIndexed meshGroup (root_node (meshMetaData loaded))"
  proof -
    let ?n = "length (objectStore st)"
    let ?k = "countMeshNodes (root_node (meshMetaData loaded))"
    from a obtain st2 where init: "initialization_LibSpecific X resMgr st = Inr (True, st2)"
      and ps: "bStaticCollisionObjects st2 = [?n..<?n + ?k]"
      and world: "bWorld st2 = bWorld st @ bStaticCollisionObjects st2"
      using initialization_fresh [of st resMgr meshGroup loaded X] by blast
    from a have old: "\<forall>q \<in> set (bWorld st). q < ?n"
      by (simp add: list_all_iff)
    have once: "list_all (\<lambda>p. count_list (bWorld st2) p \<le> 1) (bStaticCollisionObjects st2)"
      unfolding list_all_iff
    proof
      fix p assume "p \<in> set (bStaticCollisionObjects st2)"
      then have "?n \<le> p" by (simp add: ps)
      with old have "p \<notin> set (bWorld st)" by auto
      then have "count_list (bWorld st) p = 0" by (rule count_list_absent)
      then show "count_list (bWorld st2) p \<le> 1"
        by (simp add: world ps count_list_upt)
    qed
    from general [OF once] have "bWorld (BulletRigidScene_destructor st2) =
        filter (\<lambda>q. q \<notin> set (bStaticCollisionObjects st2)) (bWorld st2)"
      by simp
    also have "\<dots> = filter (\<lambda>q. q \<notin> set [?n..<?n + ?k]) (bWorld st)"
      by (simp add: world ps)
    also from old have "\<dots> = bWorld st"
      by (auto simp: filter_id_conv)
    finally show ?thesis using init by blast
  qed
  from general [of st] cycle show ?thesis by blast
qed

text \<open>The three cubes in the world that also holds the object at address 0.\<close>

theorem teardown_unregisters_before_release_witness:
  "list_all (\<lambda>p. count_list (bWorld threeCubesScene) p \<le> 1)
     (bStaticCollisionObjects threeCubesScene) \<and>
   bWorld threeCubesScene = [0, 1, 2, 3] \<and>
   bWorld (destructorBody threeCubesScene) = [0] \<and>
   objectStore (destructorBody threeCubesScene) = objectStore threeCubesScene \<and>
   bWorld (BulletRigidScene_destructor threeCubesScene) = [0] \<and>
   map (derefObject (BulletRigidScene_destructor threeCubesScene))
     (bStaticCollisionObjects threeCubesScene) = [None, None, None] \<and>
   derefObject (BulletRigidScene_destructor threeCubesScene) 0 = Some otherObject \<and>
   bStaticCollisionObjects freshScene = [] \<and>
   list_all (\<lambda>q. q < length (objectStore freshScene)) (bWorld freshScene) \<and>
   collisionMeshGroups exampleManager (collisionAssetHandle (initializationAttributes freshScene)) =
     Some [exampleMesh] \<and>
   resourceDict exampleManager (collisionAssetHandle (initializationAttributes freshScene)) =
     Some \<lparr>meshMetaData = \<lparr>root_node = threeCubes\<rparr>\<rparr> \<and>
   wellIndexed [exampleMesh] threeCubes \<and>
   initialization_LibSpecific exampleExternals exampleManager freshScene =
     Inr (True, threeCubesScene) \<and>
   bWorld (BulletRigidScene_destructor threeCubesScene) = bWorld freshScene"
proof -
  have h: "list_all (\<lambda>p. count_list (bWorld threeCubesScene) p \<le> 1)
      (bStaticCollisionObjects threeCubesScene)"
    by (simp add: threeCubesScene_def)
  have w: "bWorld threeCubesScene = [0, 1, 2, 3]"
      "filter (\<lambda>q. q \<notin> set (bStaticCollisionObjects threeCubesScene)) (bWorld threeCubesScene) = [0]"
      "derefObject threeCubesScene 0 = Some otherObject"
      "bStaticCollisionObjects threeCubesScene = [1, 2, 3]"
      "bWorld freshScene = [0]"
    by (simp_all add: threeCubesScene_def freshScene_def derefObject_def)
  note t = teardown_unregisters_before_release
    [where st = threeCubesScene, THEN conjunct1, THEN mp, OF h]
  from t have a: "bWorld (destructorBody threeCubesScene) = [0]"
    by (simp only: w(2))
  from t have b: "objectStore (destructorBody threeCubesScene) = objectStore threeCubesScene"
    by blast
  from t a have c: "bWorld (BulletRigidScene_destructor threeCubesScene) = [0]"
    by simp
  from t have "\<forall>p \<in> set (bStaticCollisionObjects threeCubesScene).
      derefObject (BulletRigidScene_destructor threeCubesScene) p = None"
    by blast
  then have d: "map (derefObject (BulletRigidScene_destructor threeCubesScene))
      (bStaticCollisionObjects threeCubesScene) = [None, None, None]"
    by (simp add: w(4))
  from t have "\<forall>q \<in> set (bWorld (BulletRigidScene_destructor threeCubesScene)).
      derefObject (BulletRigidScene_destructor threeCubesScene) q = derefObject threeCubesScene q"
    by blast
  then have e: "derefObject (BulletRigidScene_destructor threeCubesScene) 0 = Some otherObject"
    by (simp add: c w(3))
  from c have f: "bWorld (BulletRigidScene_destructor threeCubesScene) = bWorld freshScene"
    by (simp add: w(5))
  from h w(1) a b c d e f fresh_facts(3,4) manager_facts example_wellIndexed(3)
    example_initialization
  show ?thesis by (simp only: fresh_facts(5) simp_thms)
qed

section \<open>The bounding box\<close>






















text \<open>
  Claim C9. On a scene without collision components \<open>getCollisionShapeAabb\<close> does not fail
  and returns the default range, the one the loop starts from.
\<close>

theorem aabb_of_no_components:
  "bStaticCollisionObjects st = [] \<Longrightarrow> getCollisionShapeAabb X st = Inr Range3D_default"
  by (simp add: getCollisionShapeAabb_def)

theorem aabb_of_no_components_witness:
  "bStaticCollisionObjects freshScene = [] \<and>
   getCollisionShapeAabb exampleExternals freshScene =
     Inr (Range3D (Vector3 0 0 0) (Vector3 0 0 0))"
  using aabb_of_no_components [of freshScene exampleExternals] fresh_facts(3)
  by (simp add: Range3D_default_def)

section \<open>Lookups in the resource manager\<close>

text \<open>
  Claim C6. A lookup of a collision mesh group or of mesh metadata aborts (the \<^verbatim>\<open>CHECK\<close>
  fails) exactly when the key has no entry, and then returns no data at all; it returns
  an entry exactly when that entry is stored under the key. The abort is the outcome of the
  operation that made the lookup: the initialization of a scene whose asset is not loaded
  aborts.
\<close>

theorem lookup_missing_key_aborts:
  "(getCollisionMesh resMgr key = Inl CheckFailed \<longleftrightarrow> collisionMeshGroups resMgr key = None) \<and>
   (getMeshMetaData resMgr key = Inl CheckFailed \<longleftrightarrow> resourceDict resMgr key = None) \<and>
   (getCollisionMesh resMgr key = Inr meshGroup \<longleftrightarrow>
      collisionMeshGroups resMgr key = Some meshGroup) \<and>
   (getMeshMetaData resMgr key = Inr metaData \<longleftrightarrow>
      (\<exists>loaded. resourceDict resMgr key = Some loaded \<and> meshMetaData loaded = metaData)) \<and>
   (collisionMeshGroups resMgr (collisionAssetHandle (initializationAttributes st)) = None \<or>
    resourceDict resMgr (collisionAssetHandle (initializationAttributes st)) = None \<longrightarrow>
      initialization_LibSpecific X resMgr st = Inl CheckFailed)"
proof (intro conjI impI)
  show "getCollisionMesh resMgr key = Inl CheckFailed \<longleftrightarrow> collisionMeshGroups resMgr key = None"
    by (simp add: getCollisionMesh_def split: option.splits)
  show "getMeshMetaData resMgr key = Inl CheckFailed \<longleftrightarrow> resourceDict resMgr key = None"
    by (simp add: getMeshMetaData_def split: option.splits)
  show "getCollisionMesh resMgr key = Inr meshGroup \<longleftrightarrow>
      collisionMeshGroups resMgr key = Some meshGroup"
    by (simp add: getCollisionMesh_def split: option.splits)
  show "getMeshMetaData resMgr key = Inr metaData \<longleftrightarrow>
      (\<exists>loaded. resourceDict resMgr key = Some loaded \<and> meshMetaData loaded = metaData)"
    by (simp add: getMeshMetaData_def split: option.splits)
next
  assume "collisionMeshGroups resMgr (collisionAssetHandle (initializationAttributes st)) = None \<or>
    resourceDict resMgr (collisionAssetHandle (initializationAttributes st)) = None"
  then show "initialization_LibSpecific X resMgr st = Inl CheckFailed"
    by (auto simp: initialization_LibSpecific_def getCollisionMesh_def getMeshMetaData_def Let_def
        split: option.splits)
qed

text \<open>A manager that holds two assets, asked for one of them and for an asset it does not
  hold; and the initialization of the three cubes from a manager that holds nothing.\<close>

theorem lookup_missing_key_aborts_witness:
  "collisionMeshGroups exampleManager ''none.glb'' = None \<and>
   resourceDict exampleManager ''none.glb'' = None \<and>
   getCollisionMesh exampleManager ''none.glb'' = Inl CheckFailed \<and>
   getMeshMetaData exampleManager ''none.glb'' = Inl CheckFailed \<and>
   collisionMeshGroups exampleManager ''cube.glb'' = Some [exampleMesh] \<and>
   resourceDict exampleManager ''cube.glb'' = Some \<lparr>meshMetaData = \<lparr>root_node = exampleNode\<rparr>\<rparr> \<and>
   getCollisionMesh exampleManager ''cube.glb'' = Inr [exampleMesh] \<and>
   getMeshMetaData exampleManager ''cube.glb'' = Inr \<lparr>root_node = exampleNode\<rparr> \<and>
   collisionMeshGroups emptyManager (collisionAssetHandle (initializationAttributes freshScene)) =
     None \<and>
   initialization_LibSpecific exampleExternals emptyManager freshScene = Inl CheckFailed"
proof -
  have none: "collisionMeshGroups exampleManager ''none.glb'' = None"
      "resourceDict exampleManager ''none.glb'' = None"
    and some: "collisionMeshGroups exampleManager ''cube.glb'' = Some [exampleMesh]"
      "resourceDict exampleManager ''cube.glb'' = Some \<lparr>meshMetaData = \<lparr>root_node = exampleNode\<rparr>\<rparr>"
    and empty: "collisionMeshGroups emptyManager
        (collisionAssetHandle (initializationAttributes freshScene)) = None"
    by (simp_all add: exampleManager_def emptyManager_def)
  from lookup_missing_key_aborts [of exampleManager "''none.glb''"]
    lookup_missing_key_aborts [of exampleManager "''cube.glb''" "[exampleMesh]"
      "\<lparr>root_node = exampleNode\<rparr>"]
    lookup_missing_key_aborts [where resMgr = emptyManager and st = freshScene
      and X = exampleExternals]
    none some empty
  show ?thesis by simp
qed

end
